theory Spec2Isabelle
  imports Complex_Main
begin

chapter \<open>PitchLens front-end: the deal workflow orchestration\<close>

text \<open>
  A shallow embedding of the client logic of the PitchLens front-end: the
  authenticated fetch wrapper, the analysis dashboard (weight dialog, tab list,
  investment-decision polling), the public interview page, the per-deal chat widget
  and the investor dashboard list. React state is a record, an event handler is a
  function from the state to the new state, and a handler that awaits the network is
  split at the \<open>await\<close>: the part before it returns the state and what the closure
  captured, the part after it takes the outcome of the request.
\<close>

section \<open>JavaScript values the handlers rely on\<close>

text \<open>
  \<open>String.prototype.trim\<close> removes white space and line terminators at both ends.
  A \<open>string\<close> here is a list of 8-bit characters, so the white space of JavaScript
  that exists in that range is listed: TAB, LF, VT, FF, CR, SPACE and NBSP.
\<close>

definition js_whitespace :: "char \<Rightarrow> bool" where
  "js_whitespace c =
     (c = CHR 0x09 \<or> c = CHR 0x0A \<or> c = CHR 0x0B \<or> c = CHR 0x0C \<or> c = CHR 0x0D
      \<or> c = CHR 0x20 \<or> c = CHR 0xA0)"

definition trim :: "string \<Rightarrow> string" where
  "trim s = rev (dropWhile js_whitespace (rev (dropWhile js_whitespace s)))"

text \<open>A string is truthy when it is not empty; \<open>undefined\<close> and \<open>null\<close> are \<open>None\<close>.\<close>

definition truthy_str :: "string option \<Rightarrow> bool" where
  "truthy_str v = (case v of None \<Rightarrow> False | Some s \<Rightarrow> s \<noteq> [])"

text \<open>\<open>a || b\<close> on an optional string with a string default.\<close>

definition or_str :: "string option \<Rightarrow> string \<Rightarrow> string" where
  "or_str v d = (case v of None \<Rightarrow> d | Some s \<Rightarrow> if s = [] then d else s)"

text \<open>
  \<open>a || b\<close> on an optional number with a number default: \<open>undefined\<close> and \<open>0\<close> are
  falsy. The numbers of a JSON payload are finite.
\<close>

definition or_num :: "'a::zero option \<Rightarrow> 'a \<Rightarrow> 'a" where
  "or_num v d = (case v of None \<Rightarrow> d | Some n \<Rightarrow> if n = 0 then d else n)"

text \<open>\<open>Response.ok\<close>: the status is in the range 200 to 299.\<close>

definition response_ok :: "nat \<Rightarrow> bool" where
  "response_ok status = (200 \<le> status \<and> status \<le> 299)"

text \<open>
  What awaiting \<open>fetch(...)\<close> and then \<open>response.json()\<close> can give: the fetch
  rejects (\<open>Rejected\<close>, with the message of the exception), or it resolves to a response
  with a status whose body either fails to parse (\<open>Inl\<close>, the message of the
  exception \<open>response.json()\<close> throws when it is called) or parses to a value.
\<close>

datatype 'b fetch_outcome =
    Rejected string
  | Resolved nat "string + 'b"

text \<open>A toast notification; \<open>destructive\<close> is the variant of an error toast.\<close>

record Toast =
  destructive :: bool
  title :: string
  description :: string

section \<open>The authenticated fetch wrapper (\<open>lib/api-client.ts\<close>)\<close>

text \<open>
  The identity-provider session: \<open>auth.currentUser\<close> is absent when nobody is signed
  in; \<open>user.getIdToken()\<close> resolves to a token or rejects.
\<close>

datatype id_token_result = TokenError string | Token string

record User =
  getIdToken :: id_token_result

record Auth =
  currentUser :: "User option"

definition getAuthHeaders :: "Auth \<Rightarrow> (string \<times> string) list" where
  "getAuthHeaders auth =
     (case currentUser auth of
        None \<Rightarrow> []
      | Some u \<Rightarrow>
          (case getIdToken u of
             Token t \<Rightarrow> [(''Authorization'', ''Bearer '' @ t)]
           | TokenError e \<Rightarrow> []))"

text \<open>Nobody is signed in, or obtaining the token throws.\<close>

definition no_session :: "Auth \<Rightarrow> bool" where
  "no_session auth =
     (case currentUser auth of None \<Rightarrow> True
      | Some u \<Rightarrow> (case getIdToken u of TokenError e \<Rightarrow> True | Token t \<Rightarrow> False))"

text \<open>
  The \<open>Headers\<close> class of the Fetch API, as far as the wrapper uses it: a list of
  name and value pairs whose names are stored in lower case. \<open>append\<close> adds a pair,
  \<open>set\<close> replaces the value of the first pair of that name and removes the others (or
  appends when there is none), \<open>get\<close> joins the values of a name with a comma and a
  space. The constructor appends the pairs of its argument in order.
\<close>

type_synonym Headers = "(string \<times> string) list"

definition ascii_lower :: "char \<Rightarrow> char" where
  "ascii_lower c =
     (case map_of (zip ''ABCDEFGHIJKLMNOPQRSTUVWXYZ'' ''abcdefghijklmnopqrstuvwxyz'') c of
        Some l \<Rightarrow> l
      | None \<Rightarrow> c)"

definition header_name :: "string \<Rightarrow> string" where
  "header_name name = map ascii_lower name"

definition Headers_append :: "Headers \<Rightarrow> string \<Rightarrow> string \<Rightarrow> Headers" where
  "Headers_append h name v = h @ [(header_name name, v)]"

definition Headers_new :: "(string \<times> string) list \<Rightarrow> Headers" where
  "Headers_new init = foldl (\<lambda>h (name, v). Headers_append h name v) [] init"

fun set_first :: "string \<Rightarrow> string \<Rightarrow> Headers \<Rightarrow> Headers" where
  "set_first n v [] = [(n, v)]"
| "set_first n v ((k, w) # h) =
     (if k = n then (n, v) # filter (\<lambda>(k', w'). k' \<noteq> n) h else (k, w) # set_first n v h)"

definition Headers_set :: "Headers \<Rightarrow> string \<Rightarrow> string \<Rightarrow> Headers" where
  "Headers_set h name v = set_first (header_name name) v h"

fun join_values :: "string list \<Rightarrow> string" where
  "join_values [] = []"
| "join_values [v] = v"
| "join_values (v # vs) = v @ '', '' @ join_values vs"

definition Headers_get :: "Headers \<Rightarrow> string \<Rightarrow> string option" where
  "Headers_get h name =
     (case filter (\<lambda>(k, w). k = header_name name) h of
        [] \<Rightarrow> None
      | kvs \<Rightarrow> Some (join_values (map snd kvs)))"

text \<open>
  The options of a request (\<open>RequestInit\<close>) and the call the wrapper makes to
  \<open>fetch\<close>. The result of \<open>authenticatedFetch\<close> is that call: what the network answers
  is the caller's \<open>fetch_outcome\<close>.
\<close>

record RequestInit =
  http_method :: "string option"
  headers :: "(string \<times> string) list"
  body :: "string option"

record FetchCall =
  url :: string
  init :: RequestInit

definition authenticatedFetch :: "Auth \<Rightarrow> string \<Rightarrow> RequestInit \<Rightarrow> FetchCall" where
  "authenticatedFetch auth u options =
     (let authHeaders = getAuthHeaders auth;
          hs = foldl (\<lambda>h (key, v). Headers_set h key v) (Headers_new (headers options)) authHeaders
      in \<lparr> url = u, init = options\<lparr> headers := hs \<rparr> \<rparr>)"

text \<open>The options of a JSON post, to run the wrapper on.\<close>

definition example_options :: RequestInit where
  "example_options = \<lparr> http_method = Some ''POST'', headers = [(''Content-Type'', ''application/json'')],
      body = Some ''{}'' \<rparr>"

section \<open>The deal analysis record (\<open>lib/types.ts\<close>)\<close>

text \<open>
  The fields of a deal record the modelled code reads. A field the code reads through
  \<open>?.\<close> or tests for truthiness is optional. The composite risk score is only compared
  with constants, so a real number stands for the finite double; the weights are
  added, and are the integers the slider (step 5) and the request body carry.
\<close>

record RiskMetrics =
  composite_risk_score :: "real option"

record Conclusion =
  overall_attractiveness :: "string option"
  product_summary :: "string option"
  financial_analysis :: "string option"
  investment_thesis :: "string option"
  risk_summary :: "string option"

record MemoV1 =
  risk_metrics :: "RiskMetrics option"
  conclusion :: "Conclusion option"
  interview_insights :: "(string \<times> string) list option"
  weightage_used :: "(string \<times> int) list option"

record Memo =
  draft_v1 :: "MemoV1 option"

record Metadata =
  company_name :: string
  deal_id :: string
  processing_mode :: "string option"

record InterviewIssue =
  question :: string
  category :: string
  importance :: string

record Interview =
  interview_status :: "string option"
  issues :: "InterviewIssue list option"

record InvestmentDecision =
  funding_plan :: string

record FactCheckData =
  claims_checked :: "string list"

record AnalysisData =
  id' :: string
  metadata :: Metadata
  memo :: "Memo option"
  interview :: "Interview option"
  investment_decision :: "InvestmentDecision option"
  fact_check :: "FactCheckData option"

text \<open>
  Deals to run the functions on: one whose analysis has not produced anything yet, and
  a fast-mode deal whose payload nevertheless carries risk metrics, an investment
  decision and fact-check data.
\<close>

definition example_deal :: AnalysisData where
  "example_deal =
     \<lparr> id' = ''deal-1'',
       metadata = \<lparr> company_name = ''Acme'', deal_id = ''deal-1'', processing_mode = None \<rparr>,
       memo = None, interview = None, investment_decision = None, fact_check = None \<rparr>"

definition example_fast_deal :: AnalysisData where
  "example_fast_deal =
     \<lparr> id' = ''deal-2'',
       metadata =
         \<lparr> company_name = ''Bolt'', deal_id = ''deal-2'', processing_mode = Some ''fast'' \<rparr>,
       memo = Some \<lparr> draft_v1 = Some
         \<lparr> risk_metrics = Some \<lparr> composite_risk_score = Some 72 \<rparr>,
           conclusion = Some
             \<lparr> overall_attractiveness = Some ''High'',
               product_summary = Some ''Same-day delivery for pharmacies.'',
               financial_analysis = None, investment_thesis = None,
               risk_summary = Some ''Thin margins.'' \<rparr>,
           interview_insights = None, weightage_used = None \<rparr> \<rparr>,
       interview = None,
       investment_decision = Some \<lparr> funding_plan = ''two tranches'' \<rparr>,
       fact_check = Some \<lparr> claims_checked = [''ARR''] \<rparr> \<rparr>"

section \<open>The analysis dashboard (\<open>components/analysis-dashboard.tsx\<close>)\<close>

subsection \<open>The weight dialog\<close>

record Weightages =
  teamStrength :: int
  marketOpportunity :: int
  traction :: int
  claimCredibility :: int
  financialHealth :: int

text \<open>\<open>analysisData?.memo?.draft_v1?._weightage_used\<close>\<close>

definition defaultWeights :: "AnalysisData \<Rightarrow> (string \<times> int) list option" where
  "defaultWeights analysisData =
     (case memo analysisData of None \<Rightarrow> None
      | Some m \<Rightarrow> (case draft_v1 m of None \<Rightarrow> None | Some d \<Rightarrow> weightage_used d))"

text \<open>\<open>defaultWeights?.key\<close>\<close>

definition weight_of :: "(string \<times> int) list option \<Rightarrow> string \<Rightarrow> int option" where
  "weight_of dw key = (case dw of None \<Rightarrow> None | Some kvs \<Rightarrow> map_of kvs key)"

text \<open>The initial value of the \<open>weights\<close> state.\<close>

definition initial_weights :: "AnalysisData \<Rightarrow> Weightages" where
  "initial_weights analysisData =
     (let dw = defaultWeights analysisData in
      \<lparr> teamStrength = or_num (weight_of dw ''team_strength'') 20,
        marketOpportunity = or_num (weight_of dw ''market_opportunity'') 20,
        traction = or_num (weight_of dw ''traction'') 20,
        claimCredibility = or_num (weight_of dw ''claim_credibility'') 20,
        financialHealth = or_num (weight_of dw ''financial_health'') 20 \<rparr>)"

text \<open>\<open>Object.values(weights)\<close>, in the order the keys were created.\<close>

definition Object_values :: "Weightages \<Rightarrow> int list" where
  "Object_values weights =
     [teamStrength weights, marketOpportunity weights, traction weights,
      claimCredibility weights, financialHealth weights]"

text \<open>\<open>Object.values(weights).reduce((sum, w) => sum + w, 0)\<close>\<close>

definition totalWeight :: "Weightages \<Rightarrow> int" where
  "totalWeight weights = foldl (\<lambda>sum w. sum + w) 0 (Object_values weights)"

text \<open>
  The \<open>disabled\<close> attribute of the dialog's Generate Summary button:
  \<open>totalWeight !== 100 || isRecalculating\<close>.
\<close>

definition generate_summary_disabled :: "Weightages \<Rightarrow> bool \<Rightarrow> bool" where
  "generate_summary_disabled weights isRecalculating =
     (totalWeight weights \<noteq> 100 \<or> isRecalculating)"

text \<open>The body \<open>handleRecalculate\<close> posts to \<open>/api/generate_memo/{startupId}\<close>.\<close>

record RecalcBody =
  team_strength :: int
  market_opportunity :: int
  rb_traction :: int
  claim_credibility :: int
  financial_health :: int

record RecalcRequest =
  recalc_startupId :: string
  recalc_body :: RecalcBody

definition requestBody :: "Weightages \<Rightarrow> RecalcBody" where
  "requestBody weights =
     \<lparr> team_strength = teamStrength weights,
       market_opportunity = marketOpportunity weights,
       rb_traction = traction weights,
       claim_credibility = claimCredibility weights,
       financial_health = financialHealth weights \<rparr>"

text \<open>
  A click on the Generate Summary button of the dialog. A disabled button dispatches
  no click, so \<open>handleRecalculate\<close> does not run; otherwise the handler sets
  \<open>isRecalculating\<close> and issues the request. The result is the new
  \<open>isRecalculating\<close> and the requests issued.
\<close>

definition click_generate_summary ::
  "string \<Rightarrow> Weightages \<Rightarrow> bool \<Rightarrow> bool \<times> RecalcRequest list" where
  "click_generate_summary startupId weights isRecalculating =
     (if generate_summary_disabled weights isRecalculating then (isRecalculating, [])
      else (True, [\<lparr> recalc_startupId = startupId, recalc_body = requestBody weights \<rparr>]))"

subsection \<open>The tab list\<close>

text \<open>
  \<open>interview?.status !== 'completed' && interview?.issues && interview.issues.length > 0\<close>
\<close>

definition showIssuesTab :: "AnalysisData \<Rightarrow> bool" where
  "showIssuesTab analysisData =
     (case interview analysisData of None \<Rightarrow> False
      | Some i \<Rightarrow> interview_status i \<noteq> Some ''completed''
          \<and> (case issues i of None \<Rightarrow> False | Some xs \<Rightarrow> length xs > 0))"

text \<open>
  \<open>interview?.status === 'completed' && insights && Object.keys(insights).length > 0\<close>
\<close>

definition showInsightsTab :: "AnalysisData \<Rightarrow> bool" where
  "showInsightsTab analysisData =
     (case interview analysisData of None \<Rightarrow> False
      | Some i \<Rightarrow> interview_status i = Some ''completed''
          \<and> (case memo analysisData of None \<Rightarrow> False
             | Some m \<Rightarrow> (case draft_v1 m of None \<Rightarrow> False
                | Some d \<Rightarrow> (case interview_insights d of None \<Rightarrow> False
                   | Some kvs \<Rightarrow> length kvs > 0))))"

text \<open>\<open>analysisData?.metadata?.processing_mode !== 'fast'\<close>\<close>

definition not_fast :: "AnalysisData \<Rightarrow> bool" where
  "not_fast analysisData = (processing_mode (metadata analysisData) \<noteq> Some ''fast'')"

text \<open>The \<open>value\<close>s of the triggers the \<open>TabsList\<close> renders, in order.\<close>

definition TabsList :: "AnalysisData \<Rightarrow> string list" where
  "TabsList analysisData =
     [''overview'', ''market'', ''model'', ''financials'']
     @ (if not_fast analysisData then [''risks''] else [])
     @ (if showIssuesTab analysisData then [''issues''] else [])
     @ (if showInsightsTab analysisData then [''insights''] else [])
     @ (if not_fast analysisData then [''decision''] else [])
     @ (if not_fast analysisData then [''fact-check''] else [])"

subsection \<open>Polling for the investment decision\<close>

text \<open>
  The state of the dashboard the polling effect reads and writes. \<open>intervals\<close> are
  the timers of the window that are set and not cleared, each with its handle and its
  delay in milliseconds; \<open>pollInterval\<close> is the handle the last run of the effect
  created, which its cleanup function closes over (\<open>None\<close> when that run returned
  early, without a cleanup function); \<open>requests\<close> logs the paths fetched, relative to
  \<open>NEXT_PUBLIC_API_BASE_URL\<close>. \<open>data_ref\<close> is the identity of the object held in
  \<open>analysisData\<close>: every record parsed from a response is a new object.
\<close>

record Dashboard =
  startupId :: string
  analysisData :: AnalysisData
  data_ref :: nat
  investmentDecision :: "InvestmentDecision option"
  intervals :: "(nat \<times> nat) list"
  next_handle :: nat
  pollInterval :: "nat option"
  requests :: "string list"
  toasts :: "Toast list"

definition setAnalysisData :: "AnalysisData \<Rightarrow> Dashboard \<Rightarrow> Dashboard" where
  "setAnalysisData d st = st\<lparr> analysisData := d, data_ref := Suc (data_ref st) \<rparr>"

definition setInterval :: "nat \<Rightarrow> Dashboard \<Rightarrow> nat \<times> Dashboard" where
  "setInterval delay st =
     (next_handle st,
      st\<lparr> intervals := intervals st @ [(next_handle st, delay)],
          next_handle := Suc (next_handle st) \<rparr>)"

definition clearInterval :: "nat \<Rightarrow> Dashboard \<Rightarrow> Dashboard" where
  "clearInterval h st = st\<lparr> intervals := filter (\<lambda>(h', d). h' \<noteq> h) (intervals st) \<rparr>"

definition interval_active :: "nat \<Rightarrow> Dashboard \<Rightarrow> bool" where
  "interval_active h st = (h \<in> fst ` set (intervals st))"

text \<open>
  The body of the polling effect: nothing when the record has an investment decision,
  else \<open>setInterval(..., 10000)\<close>.
\<close>

definition poll_effect :: "Dashboard \<Rightarrow> Dashboard" where
  "poll_effect st =
     (if investment_decision (analysisData st) \<noteq> None then st\<lparr> pollInterval := None \<rparr>
      else (case setInterval 10000 st of (h, st') \<Rightarrow> st'\<lparr> pollInterval := Some h \<rparr>))"

text \<open>The cleanup function the effect returned: \<open>clearInterval(pollInterval)\<close>.\<close>

definition poll_cleanup :: "Dashboard \<Rightarrow> Dashboard" where
  "poll_cleanup st = (case pollInterval st of None \<Rightarrow> st | Some h \<Rightarrow> clearInterval h st)"

definition deal_path :: "string \<Rightarrow> string" where
  "deal_path sid = ''/api/deals/'' @ sid"

definition decision_ready_toast :: Toast where
  "decision_ready_toast =
     \<lparr> destructive = False, title = ''Investment Decision Ready'',
       description = ''The investment decision has been generated.'' \<rparr>"

text \<open>
  The callback of interval \<open>h\<close> starts when a period of the interval elapses: it
  fetches the deal record. A timer that is cleared does not fire.
\<close>

definition poll_fire :: "nat \<Rightarrow> Dashboard \<Rightarrow> Dashboard" where
  "poll_fire h st =
     (if interval_active h st
      then st\<lparr> requests := requests st @ [deal_path (startupId st)] \<rparr>
      else st)"

text \<open>
  The rest of the callback, from the point where the fetch has settled with
  \<open>outcome\<close>. A rejected fetch and a body that does not parse are caught and logged;
  a response that is not ok is ignored.
\<close>

definition poll_callback :: "nat \<Rightarrow> AnalysisData fetch_outcome \<Rightarrow> Dashboard \<Rightarrow> Dashboard" where
  "poll_callback h outcome st =
     (case outcome of
        Rejected e \<Rightarrow> st
      | Resolved status json \<Rightarrow>
          if response_ok status then
            (case json of
               Inl e \<Rightarrow> st
             | Inr updatedData \<Rightarrow>
                 (case investment_decision updatedData of
                    None \<Rightarrow> st
                  | Some d \<Rightarrow>
                      (let st1 = setAnalysisData updatedData st;
                           st2 = st1\<lparr> investmentDecision := Some d \<rparr>;
                           st3 = clearInterval h st2
                       in st3\<lparr> toasts := toasts st3 @ [decision_ready_toast] \<rparr>)))
          else st)"

text \<open>
  One period of interval \<open>h\<close> whose fetch settles before the next period, and a run
  of such periods.
\<close>

definition poll_tick :: "nat \<Rightarrow> AnalysisData fetch_outcome \<Rightarrow> Dashboard \<Rightarrow> Dashboard" where
  "poll_tick h outcome st =
     (if interval_active h st then poll_callback h outcome (poll_fire h st) else st)"

fun run_polls :: "nat \<Rightarrow> AnalysisData fetch_outcome list \<Rightarrow> Dashboard \<Rightarrow> Dashboard" where
  "run_polls h [] st = st"
| "run_polls h (outcome # outcomes) st = run_polls h outcomes (poll_tick h outcome st)"

text \<open>The fetch gave a record that contains an investment decision.\<close>

definition delivers_decision :: "AnalysisData fetch_outcome \<Rightarrow> bool" where
  "delivers_decision outcome =
     (case outcome of
        Rejected e \<Rightarrow> False
      | Resolved status json \<Rightarrow>
          response_ok status
          \<and> (case json of Inl e \<Rightarrow> False | Inr d \<Rightarrow> investment_decision d \<noteq> None))"

text \<open>
  The events of the dashboard that write \<open>analysisData\<close> or a timer: a period of an
  interval elapses, the fetch of a callback settles, \<open>handleRecalculate\<close> succeeds
  (it replaces the record by the one it fetched), and the unmount. After an event
  React runs the effect again when one of its dependencies changed, the cleanup of the
  previous run first. The dependencies are \<open>analysisData?.investment_decision\<close> and
  \<open>startupId\<close> (\<open>toast\<close> is stable), compared with \<open>Object.is\<close>: \<open>undefined\<close> is
  \<open>undefined\<close>, and the decision of a record is the same object as long as the record
  is.
\<close>

datatype dash_event =
    Fired nat
  | Settled nat "AnalysisData fetch_outcome"
  | Recalculated AnalysisData
  | Unmount

definition effect_deps :: "Dashboard \<Rightarrow> nat option \<times> string" where
  "effect_deps st =
     (map_option (\<lambda>d. data_ref st) (investment_decision (analysisData st)), startupId st)"

definition effect_sync :: "Dashboard \<Rightarrow> Dashboard \<Rightarrow> Dashboard" where
  "effect_sync old new =
     (if effect_deps new \<noteq> effect_deps old then poll_effect (poll_cleanup new) else new)"

definition summary_generated_toast :: Toast where
  "summary_generated_toast =
     \<lparr> destructive = False, title = ''Summary Generated'',
       description = ''The investment summary has been updated with your new weightages.'' \<rparr>"

definition dash_update :: "dash_event \<Rightarrow> Dashboard \<Rightarrow> Dashboard" where
  "dash_update e st =
     (case e of
        Fired h \<Rightarrow> poll_fire h st
      | Settled h outcome \<Rightarrow> poll_callback h outcome st
      | Recalculated d \<Rightarrow>
          (let st1 = setAnalysisData d st
           in st1\<lparr> toasts := toasts st1 @ [summary_generated_toast] \<rparr>)
      | Unmount \<Rightarrow> st)"

definition cleanup_runs :: "dash_event \<Rightarrow> Dashboard \<Rightarrow> bool" where
  "cleanup_runs e st = (e = Unmount \<or> effect_deps (dash_update e st) \<noteq> effect_deps st)"

definition dash_step :: "dash_event \<Rightarrow> Dashboard \<Rightarrow> Dashboard" where
  "dash_step e st =
     (case e of
        Unmount \<Rightarrow> poll_cleanup st
      | _ \<Rightarrow> effect_sync st (dash_update e st))"

definition run_events :: "dash_event list \<Rightarrow> Dashboard \<Rightarrow> Dashboard" where
  "run_events es st = foldl (\<lambda>st' e. dash_step e st') st es"

text \<open>
  Polling is over: the record has its investment decision and no interval is set. An
  event keeps the decision unless it is a recalculation whose fetched record has none.
\<close>

definition polling_over :: "Dashboard \<Rightarrow> bool" where
  "polling_over st = (investment_decision (analysisData st) \<noteq> None \<and> intervals st = [])"

definition keeps_decision :: "dash_event \<Rightarrow> bool" where
  "keeps_decision e =
     (case e of Recalculated d \<Rightarrow> investment_decision d \<noteq> None | _ \<Rightarrow> True)"

text \<open>A dashboard that has just mounted on the deal without results.\<close>

definition example_dashboard :: Dashboard where
  "example_dashboard =
     \<lparr> startupId = ''deal-1'', analysisData = example_deal, data_ref = 0,
       investmentDecision = None,
       intervals = [], next_handle = 0, pollInterval = None, requests = [], toasts = [] \<rparr>"

section \<open>The public interview page (\<open>app/interview/[token]/page.tsx\<close>)\<close>

record ChatMessage =
  role :: string
  message :: string
  timestamp :: string

text \<open>
  The fields the page reads from a parsed body: \<open>detail\<close> from the body of an error
  response, \<open>valid\<close>, \<open>status\<close> and \<open>chat_history\<close> from the body of the validate
  endpoint, \<open>message\<close> (here \<open>reply\<close>) from the body of the chat endpoint.
\<close>

record ErrorBody =
  detail :: "string option"

record ValidationResponse = ErrorBody +
  valid :: bool
  session_status :: string
  chat_history :: "ChatMessage list"

record ChatResult = ErrorBody +
  reply :: string

record InterviewPage =
  token :: string
  validationData :: "ValidationResponse option"
  messages :: "ChatMessage list"
  input :: string
  isLoading :: bool
  isSending :: bool
  error :: "string option"
  toasts :: "Toast list"

definition invalid_or_expired :: string where
  "invalid_or_expired = ''This interview link is invalid or has expired.''"

text \<open>
  The \<open>try\<close> block of \<open>validateToken\<close>: \<open>Inl\<close> is the message of the error it
  throws, \<open>Inr\<close> the payload it accepts.
\<close>

definition validate_try :: "ValidationResponse fetch_outcome \<Rightarrow> string + ValidationResponse" where
  "validate_try outcome =
     (case outcome of
        Rejected e \<Rightarrow> Inl e
      | Resolved status json \<Rightarrow>
          if \<not> response_ok status then
            (if status = 404 \<or> status = 403 then
               (case json of
                  Inl e \<Rightarrow> Inl e
                | Inr errorData \<Rightarrow> Inl (or_str (detail errorData) invalid_or_expired))
             else Inl ''Failed to validate the interview session.'')
          else
            (case json of
               Inl e \<Rightarrow> Inl e
             | Inr data \<Rightarrow> if \<not> valid data then Inl invalid_or_expired else Inr data))"

definition validateToken :: "ValidationResponse fetch_outcome \<Rightarrow> InterviewPage \<Rightarrow> InterviewPage" where
  "validateToken outcome st =
     (if token st = [] then st
      else
        (let st1 = st\<lparr> isLoading := True, error := None \<rparr>;
             st2 = (case validate_try outcome of
                      Inr data \<Rightarrow> st1\<lparr> validationData := Some data, messages := chat_history data \<rparr>
                    | Inl e \<Rightarrow> st1\<lparr> error := Some e \<rparr>)
         in st2\<lparr> isLoading := False \<rparr>))"

text \<open>
  What the page renders: the spinner, the alert titled \<open>Validation Failed\<close> with the
  error as its description, the not-found page, or the chat card with the messages
  and whether its input and button are disabled. \<open>view_controls\<close> lists the controls
  of a view (the page header apart): only the chat card has any.
\<close>

datatype view =
    Validating
  | ValidationFailed string
  | NotFound
  | ChatCard "ChatMessage list" bool

datatype control = MessageInput | SendButton

definition render :: "InterviewPage \<Rightarrow> view" where
  "render st =
     (if isLoading st then Validating
      else if truthy_str (error st) then ValidationFailed (or_str (error st) [])
      else (case validationData st of
              None \<Rightarrow> NotFound
            | Some v \<Rightarrow> ChatCard (messages st) (isSending st \<or> session_status v \<noteq> ''active'')))"

fun view_controls :: "view \<Rightarrow> control list" where
  "view_controls Validating = []"
| "view_controls (ValidationFailed e) = []"
| "view_controls NotFound = []"
| "view_controls (ChatCard ms disabled) = [MessageInput, SendButton]"

fun is_chat_view :: "view \<Rightarrow> bool" where
  "is_chat_view (ChatCard ms disabled) = True"
| "is_chat_view v = False"

text \<open>
  \<open>handleSendMessage\<close>, split at the \<open>await\<close>. The first part returns the new state
  and, when a request is issued, what the rest of the handler closes over: the
  \<open>messages\<close> of the render the handler belongs to, and the body it posts to
  \<open>/api/interviews/chat\<close>.
\<close>

record ChatRequest =
  interview_token :: string
  sent_message :: string

record PendingSend =
  captured_messages :: "ChatMessage list"
  chat_request :: ChatRequest

definition handleSendMessage_begin ::
  "string \<Rightarrow> InterviewPage \<Rightarrow> InterviewPage \<times> PendingSend option" where
  "handleSendMessage_begin now st =
     (if trim (input st) = [] \<or> token st = [] then (st, None)
      else
        (let userMessage = \<lparr> role = ''user'', message = input st, timestamp = now \<rparr>;
             newMessages = messages st @ [userMessage]
         in (st\<lparr> messages := newMessages, input := [], isSending := True \<rparr>,
             Some \<lparr> captured_messages = messages st,
                    chat_request = \<lparr> interview_token = token st, sent_message = input st \<rparr> \<rparr>)))"

text \<open>The \<open>try\<close> block after the request: \<open>Inl\<close> is the message of the error thrown.\<close>

definition send_try :: "ChatResult fetch_outcome \<Rightarrow> string + string" where
  "send_try outcome =
     (case outcome of
        Rejected e \<Rightarrow> Inl e
      | Resolved status json \<Rightarrow>
          (case json of
             Inl e \<Rightarrow> Inl e
           | Inr result \<Rightarrow>
               if \<not> response_ok status
               then Inl (or_str (detail result) ''Failed to get a response.'')
               else Inr (reply result)))"

definition handleSendMessage_end ::
  "string \<Rightarrow> PendingSend \<Rightarrow> ChatResult fetch_outcome \<Rightarrow> InterviewPage \<Rightarrow> InterviewPage" where
  "handleSendMessage_end now p outcome st =
     (let st1 = (case send_try outcome of
                   Inr m \<Rightarrow>
                     st\<lparr> messages :=
                          messages st @ [\<lparr> role = ''assistant'', message = m, timestamp = now \<rparr>] \<rparr>
                 | Inl e \<Rightarrow>
                     st\<lparr> toasts :=
                          toasts st @ [\<lparr> destructive = True, title = ''Error'', description = e \<rparr>],
                        messages := captured_messages p \<rparr>)
      in st1\<lparr> isSending := False \<rparr>)"

definition handleSendMessage ::
  "string \<Rightarrow> string \<Rightarrow> ChatResult fetch_outcome \<Rightarrow> InterviewPage \<Rightarrow> InterviewPage" where
  "handleSendMessage now now' outcome st =
     (case handleSendMessage_begin now st of
        (st1, None) \<Rightarrow> st1
      | (st1, Some p) \<Rightarrow> handleSendMessage_end now' p outcome st1)"

text \<open>
  The events of the page while the token stays the same: typing into the input
  (\<open>setInput\<close>) and a send with the outcome of its request. \<open>validateToken\<close> runs in an
  effect that depends on the token only, so it does not run again.
\<close>

datatype page_event =
    Typed string
  | Sent string string "ChatResult fetch_outcome"

fun page_step :: "page_event \<Rightarrow> InterviewPage \<Rightarrow> InterviewPage" where
  "page_step (Typed s) st = st\<lparr> input := s \<rparr>"
| "page_step (Sent now now' outcome) st = handleSendMessage now now' outcome st"

definition page_run :: "page_event list \<Rightarrow> InterviewPage \<Rightarrow> InterviewPage" where
  "page_run es st = foldl (\<lambda>st' e. page_step e st') st es"

text \<open>The send request failed: the fetch rejected, the body did not parse, or the
  response was not ok.\<close>

definition send_failed :: "ChatResult fetch_outcome \<Rightarrow> bool" where
  "send_failed outcome =
     (case outcome of
        Rejected e \<Rightarrow> True
      | Resolved status json \<Rightarrow> (case json of Inl e \<Rightarrow> True | Inr r \<Rightarrow> \<not> response_ok status))"

text \<open>A page state used to run the handlers on concrete input.\<close>

definition example_page :: InterviewPage where
  "example_page =
     \<lparr> token = ''tok-7f3a'', validationData = None, messages = [], input = [],
       isLoading = True, isSending = False, error = None, toasts = [] \<rparr>"

definition example_validation :: ValidationResponse where
  "example_validation =
     \<lparr> detail = None, valid = True, session_status = ''active'',
       chat_history = [\<lparr> role = ''assistant'', message = ''Welcome.'', timestamp = ''t0'' \<rparr>] \<rparr>"

text \<open>A payload of the validate endpoint that says the link is not valid and why.\<close>

definition example_closed_payload :: ValidationResponse where
  "example_closed_payload =
     \<lparr> detail = Some ''Interview closed by the investor.'', valid = False,
       session_status = ''expired'', chat_history = [] \<rparr>"

text \<open>The page after a successful validation, with an answer typed in.\<close>

definition example_ready_page :: InterviewPage where
  "example_ready_page =
     \<lparr> token = ''tok-7f3a'', validationData = Some example_validation,
       messages = chat_history example_validation, input = ''We have 40 customers.'',
       isLoading = False, isSending = False, error = None, toasts = [] \<rparr>"

section \<open>The per-deal chat widget (\<open>Chatbot\<close>)\<close>

record Message =
  role :: string
  content :: string

text \<open>
  The state of the widget, with the browser's local storage (a map from keys to
  strings; writes are taken to succeed). \<open>JSON.stringify\<close> and \<open>JSON.parse\<close> belong to
  the platform and are parameters of the functions that call them; a \<open>JSON.parse\<close>
  that throws is \<open>None\<close>.
\<close>

record Chatbot =
  analysisData :: AnalysisData
  messages :: "Message list"
  input :: string
  isLoading :: bool
  localStorage :: "string \<rightharpoonup> string"

definition dealId :: "Chatbot \<Rightarrow> string" where
  "dealId st = deal_id (metadata (analysisData st))"

definition storageKey :: "Chatbot \<Rightarrow> string" where
  "storageKey st = ''chat_history_'' @ dealId st"

definition greeting :: "string \<Rightarrow> Message" where
  "greeting company =
     \<lparr> role = ''model'',
       content = ''Hello! I've analyzed the pitch deck for **'' @ company
         @ ''**. I can answer questions about their business model, market, team, or financials based on the deck and my research. What would you like to know?'' \<rparr>"

definition initializeChat :: "Chatbot \<Rightarrow> Chatbot" where
  "initializeChat st = st\<lparr> messages := [greeting (company_name (metadata (analysisData st)))] \<rparr>"

text \<open>The effect that loads the history on mount.\<close>

definition load_history :: "(string \<Rightarrow> Message list option) \<Rightarrow> Chatbot \<Rightarrow> Chatbot" where
  "load_history JSON_parse st =
     (case localStorage st (storageKey st) of
        None \<Rightarrow> initializeChat st
      | Some savedMessages \<Rightarrow>
          if savedMessages \<noteq> [] then
            (case JSON_parse savedMessages of
               Some parsed \<Rightarrow> st\<lparr> messages := parsed \<rparr>
             | None \<Rightarrow> initializeChat st)
          else initializeChat st)"

text \<open>The effect that saves the history whenever the messages change.\<close>

definition save_history :: "(Message list \<Rightarrow> string) \<Rightarrow> Chatbot \<Rightarrow> Chatbot" where
  "save_history JSON_stringify st =
     (if length (messages st) > 0
      then st\<lparr> localStorage := (localStorage st)(storageKey st \<mapsto> JSON_stringify (messages st)) \<rparr>
      else st)"

text \<open>
  \<open>handleSendMessage\<close> of the widget, split at the \<open>await\<close>. The rest of the handler
  closes over \<open>newMessages\<close>; the body posted to \<open>/api/investor_chat\<close> carries the
  deal, the message and the history before the message.
\<close>

record InvestorChatRequest =
  chat_deal_id :: string
  chat_message :: string
  history :: "Message list"

record PendingChat =
  newMessages :: "Message list"
  investor_chat_request :: InvestorChatRequest

definition chatbot_handleSendMessage_begin ::
  "(Message list \<Rightarrow> string) \<Rightarrow> Chatbot \<Rightarrow> Chatbot \<times> PendingChat option" where
  "chatbot_handleSendMessage_begin JSON_stringify st =
     (if trim (input st) = [] then (st, None)
      else
        (let userMessage = \<lparr> role = ''user'', content = input st \<rparr>;
             new = messages st @ [userMessage]
         in (st\<lparr> messages := new,
                 localStorage := (localStorage st)(storageKey st \<mapsto> JSON_stringify new),
                 input := [],
                 isLoading := True \<rparr>,
             Some \<lparr> newMessages = new,
                    investor_chat_request =
                      \<lparr> chat_deal_id = dealId st, chat_message = input st,
                        history = map (\<lambda>m. \<lparr> role = role m, content = content m \<rparr>) (messages st) \<rparr> \<rparr>)))"

definition chatbot_try :: "ChatResult fetch_outcome \<Rightarrow> string + string" where
  "chatbot_try outcome =
     (case outcome of
        Rejected e \<Rightarrow> Inl e
      | Resolved status json \<Rightarrow>
          if \<not> response_ok status then Inl ''Failed to get response''
          else (case json of Inl e \<Rightarrow> Inl e | Inr data \<Rightarrow> Inr (reply data)))"

definition fallback_message :: Message where
  "fallback_message =
     \<lparr> role = ''model'', content = ''Sorry, I encountered an error. Please try again.'' \<rparr>"

definition chatbot_handleSendMessage_end ::
  "(Message list \<Rightarrow> string) \<Rightarrow> PendingChat \<Rightarrow> ChatResult fetch_outcome \<Rightarrow> Chatbot \<Rightarrow> Chatbot" where
  "chatbot_handleSendMessage_end JSON_stringify p outcome st =
     (let st1 = (case chatbot_try outcome of
                   Inr m \<Rightarrow>
                     (let updatedMessages = newMessages p @ [\<lparr> role = ''model'', content = m \<rparr>]
                      in st\<lparr> localStorage :=
                               (localStorage st)(storageKey st \<mapsto> JSON_stringify updatedMessages),
                             messages := updatedMessages \<rparr>)
                 | Inl e \<Rightarrow>
                     (let errorMessages = newMessages p @ [fallback_message]
                      in st\<lparr> localStorage :=
                               (localStorage st)(storageKey st \<mapsto> JSON_stringify errorMessages),
                             messages := errorMessages \<rparr>))
      in st1\<lparr> isLoading := False \<rparr>)"

definition chatbot_handleSendMessage ::
  "(Message list \<Rightarrow> string) \<Rightarrow> ChatResult fetch_outcome \<Rightarrow> Chatbot \<Rightarrow> Chatbot" where
  "chatbot_handleSendMessage JSON_stringify outcome st =
     (case chatbot_handleSendMessage_begin JSON_stringify st of
        (st1, None) \<Rightarrow> st1
      | (st1, Some p) \<Rightarrow> chatbot_handleSendMessage_end JSON_stringify p outcome st1)"

text \<open>The chat request failed: the fetch rejected, the response was not ok, or its
  body did not parse.\<close>

definition chat_failed :: "ChatResult fetch_outcome \<Rightarrow> bool" where
  "chat_failed outcome =
     (case outcome of
        Rejected e \<Rightarrow> True
      | Resolved status json \<Rightarrow>
          \<not> response_ok status \<or> (case json of Inl e \<Rightarrow> True | Inr r \<Rightarrow> False))"

text \<open>A widget state and stand-ins for the JSON functions, to run the handlers on
  concrete input.\<close>

definition example_chatbot :: Chatbot where
  "example_chatbot =
     \<lparr> analysisData = example_deal, messages = [], input = [], isLoading = False,
       localStorage = Map.empty \<rparr>"

definition example_stringify :: "Message list \<Rightarrow> string" where
  "example_stringify ms = concat (map (\<lambda>m. role m @ '':'' @ content m @ '';'') ms)"

definition example_parse :: "string \<Rightarrow> Message list option" where
  "example_parse s =
     (if s = ''user:hi;'' then Some [\<lparr> role = ''user'', content = ''hi'' \<rparr>] else None)"

section \<open>The investor dashboard (\<open>InvestorDashboard\<close>)\<close>

record InvestorDashboard =
  startups :: "AnalysisData list"
  toasts :: "Toast list"

text \<open>
  \<open>handleDelete\<close>, split at the \<open>await\<close>: the rest of the handler closes over
  \<open>originalStartups\<close>, the list of the render the handler belongs to. The request is a
  \<open>DELETE\<close> of \<open>/api/deals/{startupId}\<close>; its body is not read.
\<close>

record PendingDelete =
  originalStartups :: "AnalysisData list"
  delete_path :: string

definition handleDelete_begin :: "string \<Rightarrow> InvestorDashboard \<Rightarrow> InvestorDashboard \<times> PendingDelete" where
  "handleDelete_begin sid st =
     (st\<lparr> startups := filter (\<lambda>s. id' s \<noteq> sid) (startups st) \<rparr>,
      \<lparr> originalStartups = startups st, delete_path = deal_path sid \<rparr>)"

definition delete_try :: "unit fetch_outcome \<Rightarrow> string + unit" where
  "delete_try outcome =
     (case outcome of
        Rejected e \<Rightarrow> Inl e
      | Resolved status json \<Rightarrow>
          if \<not> response_ok status then Inl ''Failed to delete the analysis.'' else Inr ())"

definition handleDelete_end ::
  "PendingDelete \<Rightarrow> unit fetch_outcome \<Rightarrow> InvestorDashboard \<Rightarrow> InvestorDashboard" where
  "handleDelete_end p outcome st =
     (case delete_try outcome of
        Inr u \<Rightarrow>
          st\<lparr> toasts := toasts st @
                 [\<lparr> destructive = False, title = ''Analysis Deleted'',
                    description = ''The startup analysis has been successfully deleted.'' \<rparr>] \<rparr>
      | Inl e \<Rightarrow>
          st\<lparr> startups := originalStartups p,
              toasts := toasts st @
                 [\<lparr> destructive = True, title = ''Deletion Failed'',
                    description = or_str (Some e) ''An unexpected error occurred.'' \<rparr>] \<rparr>)"

definition handleDelete :: "string \<Rightarrow> unit fetch_outcome \<Rightarrow> InvestorDashboard \<Rightarrow> InvestorDashboard" where
  "handleDelete sid outcome st =
     (case handleDelete_begin sid st of (st1, p) \<Rightarrow> handleDelete_end p outcome st1)"

text \<open>The delete request failed: the fetch rejected or the response was not ok.\<close>

definition delete_failed :: "unit fetch_outcome \<Rightarrow> bool" where
  "delete_failed outcome =
     (case outcome of Rejected e \<Rightarrow> True | Resolved status json \<Rightarrow> \<not> response_ok status)"

subsection \<open>The deal card\<close>

text \<open>\<open>startup.memo?.draft_v1\<close>\<close>

definition card_memo :: "AnalysisData \<Rightarrow> MemoV1 option" where
  "card_memo startup = (case memo startup of None \<Rightarrow> None | Some m \<Rightarrow> draft_v1 m)"

text \<open>\<open>memo?.risk_metrics?.composite_risk_score\<close>\<close>

definition raw_score :: "AnalysisData \<Rightarrow> real option" where
  "raw_score startup =
     (case card_memo startup of
        None \<Rightarrow> None
      | Some m \<Rightarrow> (case risk_metrics m of None \<Rightarrow> None | Some r \<Rightarrow> composite_risk_score r))"

text \<open>\<open>const score = memo?.risk_metrics?.composite_risk_score || 0\<close>\<close>

definition score :: "AnalysisData \<Rightarrow> real" where
  "score startup = or_num (raw_score startup) 0"

text \<open>\<open>memo?.conclusion?.overall_attractiveness\<close>\<close>

definition raw_recommendation :: "AnalysisData \<Rightarrow> string option" where
  "raw_recommendation startup =
     (case card_memo startup of
        None \<Rightarrow> None
      | Some m \<Rightarrow> (case conclusion m of None \<Rightarrow> None | Some c \<Rightarrow> overall_attractiveness c))"

text \<open>\<open>const recommendation = memo?.conclusion?.overall_attractiveness || 'N/A'\<close>\<close>

definition recommendation :: "AnalysisData \<Rightarrow> string" where
  "recommendation startup = or_str (raw_recommendation startup) ''N/A''"

definition green :: string where
  "green = ''text-green-600 bg-green-50 border-green-200''"

definition yellow :: string where
  "yellow = ''text-yellow-600 bg-yellow-50 border-yellow-200''"

definition red :: string where
  "red = ''text-red-600 bg-red-50 border-red-200''"

definition scoreColor :: "real \<Rightarrow> string" where
  "scoreColor sc =
     (let c = green;
          c = (if sc > 30 then yellow else c);
          c = (if sc > 60 then red else c)
      in c)"

text \<open>
  \<open>{text && <block>}\<close>: a block of the card is rendered with its text when the text
  is a non-empty string.
\<close>

definition shown_text :: "string option \<Rightarrow> string option" where
  "shown_text v = (case v of None \<Rightarrow> None | Some t \<Rightarrow> if t = [] then None else Some t)"

text \<open>\<open>memo?.conclusion?.field\<close> for a field of the conclusion.\<close>

definition conclusion_text :: "(Conclusion \<Rightarrow> string option) \<Rightarrow> AnalysisData \<Rightarrow> string option" where
  "conclusion_text field startup =
     (case card_memo startup of
        None \<Rightarrow> None
      | Some m \<Rightarrow> (case conclusion m of None \<Rightarrow> None | Some c \<Rightarrow> field c))"

text \<open>
  What a card shows that depends on the memo or on the processing mode: the badge with
  the score and its colour classes (not in fast mode), the badge of the mode, the
  recommendation row (not in fast mode), the Product and Financials blocks, the Thesis
  and Risk blocks (not in fast mode), the note shown when none of the four texts is
  there, and the Download button, rendered under \<open>memo &&\<close>. The title, sector,
  date, link and Delete button of a card depend on neither and are left out.
\<close>

record Card =
  score_badge :: "(real \<times> string) option"
  mode_badge :: string
  recommendation_row :: "string option"
  product_block :: "string option"
  financials_block :: "string option"
  thesis_block :: "string option"
  risk_block :: "string option"
  no_conclusion_note :: bool
  download_button :: bool

definition render_card :: "AnalysisData \<Rightarrow> Card" where
  "render_card startup =
     \<lparr> score_badge =
         (if processing_mode (metadata startup) \<noteq> Some ''fast''
          then Some (score startup, scoreColor (score startup)) else None),
       mode_badge =
         (if processing_mode (metadata startup) = Some ''fast'' then ''Fast'' else ''Research''),
       recommendation_row =
         (if processing_mode (metadata startup) \<noteq> Some ''fast''
          then Some (recommendation startup) else None),
       product_block = shown_text (conclusion_text product_summary startup),
       financials_block = shown_text (conclusion_text financial_analysis startup),
       thesis_block =
         (if processing_mode (metadata startup) \<noteq> Some ''fast''
          then shown_text (conclusion_text investment_thesis startup) else None),
       risk_block =
         (if processing_mode (metadata startup) \<noteq> Some ''fast''
          then shown_text (conclusion_text risk_summary startup) else None),
       no_conclusion_note =
         (shown_text (conclusion_text product_summary startup) = None
          \<and> shown_text (conclusion_text financial_analysis startup) = None
          \<and> shown_text (conclusion_text investment_thesis startup) = None
          \<and> shown_text (conclusion_text risk_summary startup) = None),
       download_button = (card_memo startup \<noteq> None) \<rparr>"

text \<open>
  The memo of a deal that was analysed and came out as close to a deal without a memo
  as an analysed deal can: a risk score of 0, the recommendation \<open>N/A\<close> and no text in
  the conclusion.
\<close>

definition low_risk_memo :: Memo where
  "low_risk_memo =
     \<lparr> draft_v1 = Some
        \<lparr> risk_metrics = Some \<lparr> composite_risk_score = Some 0 \<rparr>,
          conclusion = Some
            \<lparr> overall_attractiveness = Some ''N/A'', product_summary = None,
              financial_analysis = None, investment_thesis = None, risk_summary = None \<rparr>,
          interview_insights = None, weightage_used = None \<rparr> \<rparr>"

section \<open>Properties\<close>

subsection \<open>The weight dialog\<close>

lemma totalWeight_sum:
  "totalWeight w =
     teamStrength w + marketOpportunity w + traction w + claimCredibility w + financialHealth w"
  by (simp add: totalWeight_def Object_values_def)

text \<open>
  C1, as stated, fails: with the five weights at 20 each the sum is 100 and the action
  is enabled; a click on it starts the recalculation, and while that is in flight the
  action is disabled although the weights still sum to 100.
\<close>

theorem C1_enabled_iff_sum_100_counterexample:
  "totalWeight \<lparr> teamStrength = 20, marketOpportunity = 20, traction = 20,
       claimCredibility = 20, financialHealth = 20 \<rparr> = 100
   \<and> fst (click_generate_summary ''deal-1'' \<lparr> teamStrength = 20, marketOpportunity = 20,
       traction = 20, claimCredibility = 20, financialHealth = 20 \<rparr> False) = True
   \<and> generate_summary_disabled \<lparr> teamStrength = 20, marketOpportunity = 20, traction = 20,
       claimCredibility = 20, financialHealth = 20 \<rparr> True"
  by (simp add: generate_summary_disabled_def click_generate_summary_def totalWeight_sum)

text \<open>
  C1 (amended): for every tuple of the five weights, the Generate Summary action of the
  dialog is enabled exactly when the weights sum to 100 and no recalculation is in
  flight; for any other sum it is disabled, and a click on it issues no request and
  leaves the state as it was.
\<close>

theorem C1_enabled_iff_sum_100_and_idle:
  "(\<not> generate_summary_disabled w r) =
     (teamStrength w + marketOpportunity w + traction w + claimCredibility w
        + financialHealth w = 100 \<and> \<not> r)
   \<and> (teamStrength w + marketOpportunity w + traction w + claimCredibility w
        + financialHealth w \<noteq> 100 \<longrightarrow>
      generate_summary_disabled w r \<and> click_generate_summary sid w r = (r, []))"
  by (auto simp: generate_summary_disabled_def click_generate_summary_def totalWeight_sum)

theorem C1_enabled_iff_sum_100_and_idle_witness:
  "\<not> generate_summary_disabled (initial_weights example_deal) False
   \<and> \<not> generate_summary_disabled \<lparr> teamStrength = 30, marketOpportunity = 20, traction = 20,
       claimCredibility = 20, financialHealth = 10 \<rparr> False
   \<and> generate_summary_disabled \<lparr> teamStrength = 30, marketOpportunity = 20, traction = 20,
       claimCredibility = 20, financialHealth = 15 \<rparr> False
   \<and> click_generate_summary ''deal-1'' \<lparr> teamStrength = 30, marketOpportunity = 20,
       traction = 20, claimCredibility = 20, financialHealth = 15 \<rparr> False = (False, [])"
  using C1_enabled_iff_sum_100_and_idle
    [of "\<lparr> teamStrength = 30, marketOpportunity = 20, traction = 20,
          claimCredibility = 20, financialHealth = 10 \<rparr>" False "''deal-1''"]
    C1_enabled_iff_sum_100_and_idle
    [of "\<lparr> teamStrength = 30, marketOpportunity = 20, traction = 20,
          claimCredibility = 20, financialHealth = 15 \<rparr>" False "''deal-1''"]
    C1_enabled_iff_sum_100_and_idle [of "initial_weights example_deal" False "''deal-1''"]
  by (simp add: initial_weights_def defaultWeights_def weight_of_def or_num_def example_deal_def)

subsection \<open>The tab list\<close>

text \<open>
  C3: for every deal record whose \<open>processing_mode\<close> is \<open>fast\<close> the tab list has none
  of the Risks, Fund Decision and Fact Check tabs, whatever else the record holds; for
  every other \<open>processing_mode\<close> (an absent one too) it has all three.
\<close>

theorem C3_fast_mode_hides_tabs:
  "(processing_mode (metadata d) = Some ''fast'' \<longrightarrow>
      ''risks'' \<notin> set (TabsList d) \<and> ''decision'' \<notin> set (TabsList d)
      \<and> ''fact-check'' \<notin> set (TabsList d))
   \<and> (processing_mode (metadata d) \<noteq> Some ''fast'' \<longrightarrow>
      ''risks'' \<in> set (TabsList d) \<and> ''decision'' \<in> set (TabsList d)
      \<and> ''fact-check'' \<in> set (TabsList d))"
  by (simp add: TabsList_def not_fast_def)

theorem C3_fast_mode_hides_tabs_witness:
  "investment_decision example_fast_deal \<noteq> None \<and> fact_check example_fast_deal \<noteq> None
   \<and> TabsList example_fast_deal = [''overview'', ''market'', ''model'', ''financials'']
   \<and> TabsList example_deal =
       [''overview'', ''market'', ''model'', ''financials'', ''risks'', ''decision'', ''fact-check'']"
  using C3_fast_mode_hides_tabs [of example_fast_deal] C3_fast_mode_hides_tabs [of example_deal]
  by (simp add: example_fast_deal_def example_deal_def TabsList_def not_fast_def
      showIssuesTab_def showInsightsTab_def)

subsection \<open>Polling for the investment decision\<close>

lemma poll_effect_starts:
  "investment_decision (Dashboard.analysisData st) = None \<Longrightarrow>
     pollInterval (poll_effect st) = Some (next_handle st)
     \<and> intervals (poll_effect st) = intervals st @ [(next_handle st, 10000)]"
  by (simp add: poll_effect_def setInterval_def)

lemma poll_callback_idle:
  "\<not> delivers_decision out \<Longrightarrow> poll_callback h out st = st"
  by (auto simp: poll_callback_def delivers_decision_def
      split: fetch_outcome.splits sum.splits option.splits)

lemma clearInterval_other:
  "interval_active h (clearInterval h' st) = (interval_active h st \<and> h \<noteq> h')"
  by (force simp: clearInterval_def interval_active_def)

lemma poll_callback_delivers:
  assumes "delivers_decision out"
  shows "interval_active h (poll_callback h' out st) = (interval_active h st \<and> h \<noteq> h')"
proof -
  obtain status d dec where out: "out = Resolved status (Inr d)"
    and ok: "response_ok status" and dec: "investment_decision d = Some dec"
    using assms by (auto simp: delivers_decision_def split: fetch_outcome.splits sum.splits)
  let ?st2 = "(setAnalysisData d st)\<lparr> investmentDecision := Some dec \<rparr>"
  have "interval_active h ?st2 = interval_active h st"
    by (simp add: interval_active_def setAnalysisData_def)
  then have "interval_active h (clearInterval h' ?st2) = (interval_active h st \<and> h \<noteq> h')"
    by (simp add: clearInterval_other)
  then show ?thesis
    using out ok dec by (simp add: poll_callback_def Let_def interval_active_def)
qed

lemma poll_callback_active:
  "interval_active h (poll_callback h out st) = (interval_active h st \<and> \<not> delivers_decision out)"
  by (cases "delivers_decision out") (simp_all add: poll_callback_delivers poll_callback_idle)

lemma poll_fire_active: "interval_active h (poll_fire h' st) = interval_active h st"
  by (simp add: poll_fire_def interval_active_def)

lemma poll_tick_idle:
  "interval_active h st \<Longrightarrow> \<not> delivers_decision out \<Longrightarrow>
     poll_tick h out st = st\<lparr> requests := requests st @ [deal_path (startupId st)] \<rparr>"
  by (simp add: poll_tick_def poll_fire_def poll_callback_idle)

lemma poll_tick_active:
  assumes "interval_active h st"
  shows "interval_active h (poll_tick h out st) = (\<not> delivers_decision out)"
  using assms by (simp add: poll_tick_def poll_callback_active poll_fire_active)

lemma run_polls_idle:
  "interval_active h st \<Longrightarrow> \<forall>out \<in> set outs. \<not> delivers_decision out \<Longrightarrow>
     run_polls h outs st =
       st\<lparr> requests := requests st @ replicate (length outs) (deal_path (startupId st)) \<rparr>"
proof (induction outs arbitrary: st)
  case Nil
  then show ?case by simp
next
  case (Cons out outs)
  let ?st1 = "st\<lparr> requests := requests st @ [deal_path (startupId st)] \<rparr>"
  have t: "poll_tick h out st = ?st1"
    using Cons.prems by (simp add: poll_tick_idle)
  have a: "interval_active h ?st1"
    using Cons.prems(1) by (simp add: interval_active_def)
  have "run_polls h outs ?st1 =
      ?st1\<lparr> requests := requests ?st1 @ replicate (length outs) (deal_path (startupId ?st1)) \<rparr>"
    using Cons.IH [OF a] Cons.prems(2) by simp
  then show ?case
    using t by (simp add: replicate_app_Cons_same)
qed

lemma poll_cleanup_clears:
  "pollInterval st = Some h \<Longrightarrow> \<not> interval_active h (poll_cleanup st)"
  by (auto simp: poll_cleanup_def clearInterval_def interval_active_def)

lemma poll_effect_keeps:
  "interval_active h st \<Longrightarrow> interval_active h (poll_effect st)"
  by (auto simp: poll_effect_def setInterval_def interval_active_def)

lemma poll_cleanup_other:
  "interval_active h st \<Longrightarrow> pollInterval st \<noteq> Some h \<Longrightarrow> interval_active h (poll_cleanup st)"
  by (auto simp: poll_cleanup_def clearInterval_other split: option.splits)

lemma poll_callback_other:
  assumes "interval_active h st" and "h' \<noteq> h \<or> \<not> delivers_decision out"
  shows "interval_active h (poll_callback h' out st)"
  using assms
  by (cases "delivers_decision out") (auto simp: poll_callback_delivers poll_callback_idle)

lemma poll_callback_pollInterval: "pollInterval (poll_callback h out st) = pollInterval st"
  by (auto simp: poll_callback_def clearInterval_def setAnalysisData_def Let_def
      split: fetch_outcome.splits sum.splits option.splits)

lemma dash_update_pollInterval: "pollInterval (dash_update e st) = pollInterval st"
  by (cases e)
    (simp_all add: dash_update_def poll_fire_def poll_callback_pollInterval setAnalysisData_def
      Let_def)

lemma dash_update_keeps:
  assumes "interval_active h st" and "\<not> (\<exists>out. e = Settled h out \<and> delivers_decision out)"
  shows "interval_active h (dash_update e st)"
proof (cases e)
  case (Fired h')
  then show ?thesis using assms(1) by (simp add: dash_update_def poll_fire_active)
next
  case (Settled h' out)
  then have "h' \<noteq> h \<or> \<not> delivers_decision out" using assms(2) by auto
  then show ?thesis
    using Settled assms(1) by (simp add: dash_update_def poll_callback_other)
next
  case (Recalculated d)
  then show ?thesis
    using assms(1) by (simp add: dash_update_def setAnalysisData_def Let_def interval_active_def)
next
  case Unmount
  then show ?thesis using assms(1) by (simp add: dash_update_def)
qed

lemma effect_sync_removed:
  assumes "interval_active h new" and "\<not> interval_active h (effect_sync old new)"
  shows "effect_deps new \<noteq> effect_deps old \<and> pollInterval new = Some h"
proof -
  have changed: "effect_deps new \<noteq> effect_deps old"
    using assms by (auto simp: effect_sync_def split: if_splits)
  then have "\<not> interval_active h (poll_effect (poll_cleanup new))"
    using assms(2) by (simp add: effect_sync_def)
  then have "\<not> interval_active h (poll_cleanup new)"
    using poll_effect_keeps by blast
  then have "pollInterval new = Some h"
    using assms(1) poll_cleanup_other by blast
  then show ?thesis using changed by simp
qed

lemma torn_down_only:
  assumes "interval_active h st" and "\<not> interval_active h (dash_step e st)"
  shows "(\<exists>out. e = Settled h out \<and> delivers_decision out)
      \<or> (cleanup_runs e st \<and> pollInterval st = Some h)"
proof (cases "\<exists>out. e = Settled h out \<and> delivers_decision out")
  case True
  then show ?thesis by simp
next
  case False
  have act: "interval_active h (dash_update e st)"
    using assms(1) False by (rule dash_update_keeps)
  show ?thesis
  proof (cases "e = Unmount")
    case True
    then have "\<not> interval_active h (poll_cleanup st)"
      using assms(2) by (simp add: dash_step_def)
    then have "pollInterval st = Some h"
      using assms(1) poll_cleanup_other by blast
    then show ?thesis using True by (simp add: cleanup_runs_def)
  next
    case notU: False
    then have "dash_step e st = effect_sync st (dash_update e st)"
      by (cases e) (simp_all add: dash_step_def)
    then have "\<not> interval_active h (effect_sync st (dash_update e st))"
      using assms(2) by simp
    then have "effect_deps (dash_update e st) \<noteq> effect_deps st
        \<and> pollInterval (dash_update e st) = Some h"
      using act effect_sync_removed by blast
    then show ?thesis
      by (simp add: cleanup_runs_def dash_update_pollInterval)
  qed
qed

lemma poll_effect_guard:
  "investment_decision (Dashboard.analysisData st) \<noteq> None \<Longrightarrow>
     poll_effect st = st\<lparr> pollInterval := None \<rparr>"
  by (simp add: poll_effect_def)

lemma poll_callback_delivered:
  assumes "delivers_decision out"
  shows "intervals (poll_callback h out st) = filter (\<lambda>(h', d). h' \<noteq> h) (intervals st)
     \<and> investment_decision (Dashboard.analysisData (poll_callback h out st)) \<noteq> None
     \<and> data_ref (poll_callback h out st) = Suc (data_ref st)
     \<and> startupId (poll_callback h out st) = startupId st
     \<and> pollInterval (poll_callback h out st) = pollInterval st
     \<and> requests (poll_callback h out st) = requests st"
proof -
  obtain status d dec where out: "out = Resolved status (Inr d)"
    and ok: "response_ok status" and dec: "investment_decision d = Some dec"
    using assms by (auto simp: delivers_decision_def split: fetch_outcome.splits sum.splits)
  show ?thesis
    using ok dec
    by (simp add: out poll_callback_def Let_def setAnalysisData_def clearInterval_def)
qed

lemma settled_delivers_step:
  assumes "delivers_decision out"
  shows "intervals (dash_step (Settled h out) st) =
       filter (\<lambda>(h', d). h' \<noteq> h \<and> pollInterval st \<noteq> Some h') (intervals st)
     \<and> pollInterval (dash_step (Settled h out) st) = None
     \<and> investment_decision (Dashboard.analysisData (dash_step (Settled h out) st)) \<noteq> None
     \<and> requests (dash_step (Settled h out) st) = requests st"
proof -
  let ?new = "poll_callback h out st"
  note d = poll_callback_delivered [OF assms, of h st]
  have changed: "effect_deps ?new \<noteq> effect_deps st"
    using d
    by (cases "investment_decision (Dashboard.analysisData st)") (auto simp: effect_deps_def)
  have step: "dash_step (Settled h out) st = poll_effect (poll_cleanup ?new)"
    using changed by (simp add: dash_step_def dash_update_def effect_sync_def)
  have dec: "investment_decision (Dashboard.analysisData (poll_cleanup ?new)) \<noteq> None"
    using d by (simp add: poll_cleanup_def clearInterval_def split: option.splits)
  have eff: "poll_effect (poll_cleanup ?new) = (poll_cleanup ?new)\<lparr> pollInterval := None \<rparr>"
    using dec by (rule poll_effect_guard)
  have iv: "intervals (poll_cleanup ?new) =
      filter (\<lambda>(h', d). h' \<noteq> h \<and> pollInterval st \<noteq> Some h') (intervals st)"
  proof (cases "pollInterval st")
    case None
    then show ?thesis using d by (simp add: poll_cleanup_def)
  next
    case (Some p)
    have "filter (\<lambda>(h', d). h' \<noteq> p) (filter (\<lambda>(h', d). h' \<noteq> h) (intervals st))
        = filter (\<lambda>(h', d). h' \<noteq> h \<and> p \<noteq> h') (intervals st)"
      by (induction "intervals st") (auto intro: filter_cong)
    then show ?thesis
      using d Some by (simp add: poll_cleanup_def clearInterval_def)
  qed
  have rq: "requests (poll_cleanup ?new) = requests st"
    using d by (simp add: poll_cleanup_def clearInterval_def split: option.splits)
  show ?thesis
    using step eff iv dec rq by simp
qed

lemma polling_over_step:
  assumes "polling_over st" and "keeps_decision e"
  shows "polling_over (dash_step e st) \<and> requests (dash_step e st) = requests st"
proof -
  have dec: "investment_decision (Dashboard.analysisData st) \<noteq> None" and iv: "intervals st = []"
    using assms(1) by (simp_all add: polling_over_def)
  have sync: "polling_over (effect_sync st new) \<and> requests (effect_sync st new) = requests new"
    if "polling_over new" for new
  proof -
    have "polling_over (poll_effect (poll_cleanup new))
        \<and> requests (poll_effect (poll_cleanup new)) = requests new"
      using that
      by (auto simp: polling_over_def poll_effect_def poll_cleanup_def clearInterval_def
          split: option.splits)
    then show ?thesis using that by (simp add: effect_sync_def)
  qed
  show ?thesis
  proof (cases e)
    case (Fired h)
    have "poll_fire h st = st" using iv by (simp add: poll_fire_def interval_active_def)
    then show ?thesis
      using Fired assms(1) sync [of st] by (simp add: dash_step_def dash_update_def)
  next
    case (Settled h out)
    have "polling_over (poll_callback h out st) \<and> requests (poll_callback h out st) = requests st"
    proof (cases "delivers_decision out")
      case True
      then show ?thesis
        using poll_callback_delivered [OF True, of h st] iv by (simp add: polling_over_def)
    next
      case False
      then show ?thesis using assms(1) by (simp add: poll_callback_idle)
    qed
    then show ?thesis
      using Settled sync [of "poll_callback h out st"] by (simp add: dash_step_def dash_update_def)
  next
    case (Recalculated d)
    let ?new = "dash_update (Recalculated d) st"
    have "investment_decision d \<noteq> None"
      using assms(2) Recalculated by (simp add: keeps_decision_def)
    then have "polling_over ?new \<and> requests ?new = requests st"
      using iv by (simp add: dash_update_def setAnalysisData_def Let_def polling_over_def)
    then show ?thesis
      using Recalculated sync [of ?new] by (simp add: dash_step_def)
  next
    case Unmount
    then show ?thesis
      using assms(1)
      by (auto simp: dash_step_def poll_cleanup_def clearInterval_def polling_over_def
          split: option.splits)
  qed
qed

lemma polling_over_run:
  "polling_over st \<Longrightarrow> \<forall>e \<in> set es. keeps_decision e \<Longrightarrow>
     polling_over (run_events es st) \<and> requests (run_events es st) = requests st"
proof (induction es arbitrary: st)
  case Nil
  then show ?case by (simp add: run_events_def)
next
  case (Cons e es)
  have s: "polling_over (dash_step e st) \<and> requests (dash_step e st) = requests st"
    using Cons.prems by (simp add: polling_over_step)
  have "run_events (e # es) st = run_events es (dash_step e st)"
    by (simp add: run_events_def)
  then show ?case
    using Cons.IH [of "dash_step e st"] s Cons.prems(2) by simp
qed

text \<open>
  C2: for every dashboard whose deal record has no investment decision, the polling
  effect sets an interval of 10000 ms (and sets none when the record has the
  decision); each period of the interval fetches the deal record again; a callback of
  the interval clears it exactly when its fetch gives a record with an investment
  decision; through any number of periods whose fetches give none (rejected, not ok,
  unparseable, or a record without the decision) the interval stays set with the delay
  it had, and one request is issued per period. When a callback gets the decision, the
  step as a whole (the callback, then the cleanup and the new run of the effect that
  the changed dependency brings) leaves the record with its decision, removes the
  interval and sets no other; from a dashboard with the decision and no interval,
  no run of events that keep the decision sets an interval or issues a request. The
  cleanup of the effect clears the interval; and no event of the dashboard removes a
  set interval but a callback of it that gets the decision or a run of the cleanup
  that holds its handle (on unmount, or before the effect runs again because a
  dependency changed).
\<close>

theorem C2_polling_until_decision:
  "(investment_decision (Dashboard.analysisData st) = None \<longrightarrow>
      pollInterval (poll_effect st) = Some (next_handle st)
      \<and> intervals (poll_effect st) = intervals st @ [(next_handle st, 10000)])
   \<and> (investment_decision (Dashboard.analysisData st) \<noteq> None \<longrightarrow>
      poll_effect st = st\<lparr> pollInterval := None \<rparr>)
   \<and> (interval_active h st \<longrightarrow>
      requests (poll_fire h st) = requests st @ [deal_path (startupId st)]
      \<and> interval_active h (poll_callback h out st) = (\<not> delivers_decision out)
      \<and> interval_active h (poll_tick h out st) = (\<not> delivers_decision out))
   \<and> (interval_active h st \<and> (\<forall>out \<in> set outs. \<not> delivers_decision out) \<longrightarrow>
      run_polls h outs st =
        st\<lparr> requests := requests st @ replicate (length outs) (deal_path (startupId st)) \<rparr>)
   \<and> (delivers_decision out \<longrightarrow>
      intervals (dash_step (Settled h out) st) =
        filter (\<lambda>(h', d). h' \<noteq> h \<and> pollInterval st \<noteq> Some h') (intervals st)
      \<and> pollInterval (dash_step (Settled h out) st) = None
      \<and> investment_decision (Dashboard.analysisData (dash_step (Settled h out) st)) \<noteq> None
      \<and> requests (dash_step (Settled h out) st) = requests st)
   \<and> (polling_over st \<and> (\<forall>e \<in> set es. keeps_decision e) \<longrightarrow>
      polling_over (run_events es st) \<and> requests (run_events es st) = requests st)
   \<and> (pollInterval st = Some h \<longrightarrow> \<not> interval_active h (poll_cleanup st))
   \<and> (interval_active h st \<and> \<not> interval_active h (dash_step e st) \<longrightarrow>
      (\<exists>out. e = Settled h out \<and> delivers_decision out)
      \<or> (cleanup_runs e st \<and> pollInterval st = Some h))"
proof -
  have fire: "interval_active h st \<Longrightarrow>
      requests (poll_fire h st) = requests st @ [deal_path (startupId st)]"
    by (simp add: poll_fire_def)
  show ?thesis
    using poll_effect_starts [of st] poll_effect_guard [of st] fire
      poll_callback_active [of h out st] poll_tick_active [of h st out]
      run_polls_idle [of h st outs] settled_delivers_step [of out h st]
      polling_over_run [of st es] poll_cleanup_clears [of st h] torn_down_only [of h st e]
    by blast
qed

theorem C2_polling_until_decision_witness:
  "intervals (poll_effect example_dashboard) = [(0, 10000)]
   \<and> interval_active 0
       (poll_tick 0 (Resolved 500 (Inl ''Internal Server Error'')) (poll_effect example_dashboard))
   \<and> \<not> interval_active 0
       (poll_tick 0 (Resolved 200 (Inr example_fast_deal)) (poll_effect example_dashboard))
   \<and> intervals (run_polls 0
         [Rejected ''Failed to fetch'', Resolved 200 (Inr example_deal),
          Resolved 503 (Inl ''Bad Gateway'')] (poll_effect example_dashboard)) = [(0, 10000)]
   \<and> requests (run_polls 0
         [Rejected ''Failed to fetch'', Resolved 200 (Inr example_deal),
          Resolved 503 (Inl ''Bad Gateway'')] (poll_effect example_dashboard))
       = [''/api/deals/deal-1'', ''/api/deals/deal-1'', ''/api/deals/deal-1'']
   \<and> intervals (dash_step (Settled 0 (Resolved 200 (Inr example_fast_deal)))
         (poll_effect example_dashboard)) = []
   \<and> polling_over (dash_step (Settled 0 (Resolved 200 (Inr example_fast_deal)))
         (poll_effect example_dashboard))
   \<and> requests (run_events [Fired 0, Fired 1, Settled 0 (Resolved 200 (Inr example_fast_deal)),
         Fired 0]
         (dash_step (Settled 0 (Resolved 200 (Inr example_fast_deal)))
           (poll_effect example_dashboard))) = []
   \<and> \<not> interval_active 0 (poll_cleanup (poll_effect example_dashboard))
   \<and> \<not> interval_active 0 (dash_step Unmount (poll_effect example_dashboard))"
proof -
  let ?st1 = "poll_effect example_dashboard"
  let ?got = "Resolved 200 (Inr example_fast_deal)"
  let ?idle = "[Rejected ''Failed to fetch'', Resolved 200 (Inr example_deal),
      Resolved 503 (Inl ''Bad Gateway'')]"
  let ?st2 = "dash_step (Settled 0 ?got) ?st1"
  let ?es = "[Fired 0, Fired 1, Settled 0 ?got, Fired 0]"
  have st1: "?st1 = example_dashboard\<lparr> intervals := [(0, 10000)], next_handle := 1,
      pollInterval := Some 0 \<rparr>"
    by (simp add: example_dashboard_def example_deal_def poll_effect_def setInterval_def)
  have none: "investment_decision (Dashboard.analysisData example_dashboard) = None"
    by (simp add: example_dashboard_def example_deal_def)
  have del: "delivers_decision ?got"
    by (simp add: delivers_decision_def response_ok_def example_fast_deal_def)
  have idle: "\<forall>out \<in> set ?idle. \<not> delivers_decision out"
    by (simp add: delivers_decision_def response_ok_def example_deal_def)
  have nd: "\<not> delivers_decision (Resolved 500 (Inl ''Internal Server Error''))"
    by (simp add: delivers_decision_def)
  have keep: "\<forall>e \<in> set ?es. keeps_decision e"
    by (simp add: keeps_decision_def)
  have pi: "pollInterval ?st1 = Some 0" by (simp add: st1)
  have rq1: "requests ?st1 = []"
    unfolding st1 by (simp add: example_dashboard_def)
  have sid: "startupId ?st1 = ''deal-1''"
    unfolding st1 by (simp add: example_dashboard_def)
  have "intervals ?st1 = intervals example_dashboard @ [(next_handle example_dashboard, 10000)]"
    using C2_polling_until_decision [of example_dashboard] none by blast
  then have c1: "intervals ?st1 = [(0, 10000)]"
    by (simp add: example_dashboard_def)
  have act: "interval_active 0 ?st1"
    by (simp add: c1 interval_active_def)
  note b = C2_polling_until_decision [of ?st1 0 ?got ?idle "[]" Unmount]
  have c2: "interval_active 0 (poll_tick 0 (Resolved 500 (Inl ''Internal Server Error'')) ?st1)"
    using C2_polling_until_decision [of ?st1 0 "Resolved 500 (Inl ''Internal Server Error'')" "[]" "[]" Unmount]
      act nd by blast
  have c3: "\<not> interval_active 0 (poll_tick 0 ?got ?st1)"
    using b act del by blast
  have "run_polls 0 ?idle ?st1 =
      ?st1\<lparr> requests := requests ?st1 @ replicate (length ?idle) (deal_path (startupId ?st1)) \<rparr>"
    using b act idle by blast
  then have c45: "intervals (run_polls 0 ?idle ?st1) = [(0, 10000)]
      \<and> requests (run_polls 0 ?idle ?st1)
          = [''/api/deals/deal-1'', ''/api/deals/deal-1'', ''/api/deals/deal-1'']"
    by (simp add: c1 rq1 sid deal_path_def)
  have s2: "intervals ?st2 =
        filter (\<lambda>(h', d). h' \<noteq> 0 \<and> pollInterval ?st1 \<noteq> Some h') (intervals ?st1)
      \<and> investment_decision (Dashboard.analysisData ?st2) \<noteq> None
      \<and> requests ?st2 = requests ?st1"
    using b del by blast
  then have c6: "intervals ?st2 = []"
    by (simp add: c1 pi)
  have c7: "polling_over ?st2"
    using s2 c6 by (simp add: polling_over_def)
  have "requests (run_events ?es ?st2) = requests ?st2"
    using C2_polling_until_decision [of ?st2 0 ?got "[]" ?es Unmount] c7 keep by blast
  then have c8: "requests (run_events ?es ?st2) = []"
    using s2 rq1 by simp
  have c9: "\<not> interval_active 0 (poll_cleanup ?st1)"
    using b pi by blast
  have c10: "\<not> interval_active 0 (dash_step Unmount ?st1)"
    using c9 by (simp add: dash_step_def)
  show ?thesis
    using c1 c2 c3 c45 c6 c7 c8 c9 c10 by blast
qed

subsection \<open>The public interview page\<close>

lemma handleSendMessage_begin_sends:
  assumes "trim (InterviewPage.input st) \<noteq> []" and "token st \<noteq> []"
  shows "handleSendMessage_begin now st =
     (st\<lparr> InterviewPage.messages := InterviewPage.messages st
             @ [\<lparr> ChatMessage.role = ''user'', message = InterviewPage.input st, timestamp = now \<rparr>],
          InterviewPage.input := [], isSending := True \<rparr>,
      Some \<lparr> captured_messages = InterviewPage.messages st,
             chat_request = \<lparr> interview_token = token st,
                              sent_message = InterviewPage.input st \<rparr> \<rparr>)"
  using assms by (simp add: handleSendMessage_begin_def Let_def)

lemma send_failed_try: "send_failed out \<Longrightarrow> \<exists>e. send_try out = Inl e"
  by (auto simp: send_failed_def send_try_def split: fetch_outcome.splits sum.splits)

lemma handleSendMessage_end_failed:
  assumes "send_failed out"
  shows "InterviewPage.messages (handleSendMessage_end now' p out st') = captured_messages p"
proof -
  obtain e where "send_try out = Inl e" using assms send_failed_try by blast
  then show ?thesis by (simp add: handleSendMessage_end_def)
qed

text \<open>
  C4: on the interview page, sending a message that is not blank, with a token,
  appends the user message to the history at once and posts it with the whole token;
  when the request fails (the fetch rejects, the body does not parse, or the response
  is not ok) the history is set back to the messages as they were before the send.
\<close>

theorem C4_send_rolls_back_on_failure:
  assumes "trim (InterviewPage.input st) \<noteq> []" and "token st \<noteq> []"
  shows "InterviewPage.messages (fst (handleSendMessage_begin now st)) =
           InterviewPage.messages st
             @ [\<lparr> ChatMessage.role = ''user'', message = InterviewPage.input st, timestamp = now \<rparr>]
       \<and> map_option chat_request (snd (handleSendMessage_begin now st)) =
           Some \<lparr> interview_token = token st, sent_message = InterviewPage.input st \<rparr>
       \<and> (send_failed out \<longrightarrow>
           InterviewPage.messages (handleSendMessage now now' out st) = InterviewPage.messages st
           \<and> (\<forall>p st'. snd (handleSendMessage_begin now st) = Some p \<longrightarrow>
                InterviewPage.messages (handleSendMessage_end now' p out st')
                  = InterviewPage.messages st))"
proof -
  note b = handleSendMessage_begin_sends [OF assms, of now]
  have "InterviewPage.messages (handleSendMessage now now' out st) = InterviewPage.messages st
      \<and> (\<forall>p st'. snd (handleSendMessage_begin now st) = Some p \<longrightarrow>
            InterviewPage.messages (handleSendMessage_end now' p out st')
              = InterviewPage.messages st)"
    if f: "send_failed out"
    using handleSendMessage_end_failed [OF f]
    by (auto simp: handleSendMessage_def b)
  then show ?thesis by (simp add: b)
qed

theorem C4_send_rolls_back_on_failure_witness:
  "trim (InterviewPage.input example_ready_page) \<noteq> [] \<and> token example_ready_page \<noteq> []
   \<and> InterviewPage.messages (fst (handleSendMessage_begin ''t1'' example_ready_page)) =
       [\<lparr> ChatMessage.role = ''assistant'', message = ''Welcome.'', timestamp = ''t0'' \<rparr>,
        \<lparr> ChatMessage.role = ''user'', message = ''We have 40 customers.'', timestamp = ''t1'' \<rparr>]
   \<and> map_option chat_request (snd (handleSendMessage_begin ''t1'' example_ready_page)) =
       Some \<lparr> interview_token = ''tok-7f3a'', sent_message = ''We have 40 customers.'' \<rparr>
   \<and> InterviewPage.messages
         (handleSendMessage ''t1'' ''t2'' (Rejected ''Failed to fetch'') example_ready_page) =
       [\<lparr> ChatMessage.role = ''assistant'', message = ''Welcome.'', timestamp = ''t0'' \<rparr>]"
proof -
  have i: "trim (InterviewPage.input example_ready_page) \<noteq> []"
    by (simp add: example_ready_page_def trim_def js_whitespace_def)
  have t: "token example_ready_page \<noteq> []"
    by (simp add: example_ready_page_def)
  have f: "send_failed (Rejected ''Failed to fetch'')"
    by (simp add: send_failed_def)
  show ?thesis
    using i t f C4_send_rolls_back_on_failure [OF i t, of "''t1''" "Rejected ''Failed to fetch''" "''t2''"]
    by (simp add: example_ready_page_def example_validation_def)
qed

lemma validateToken_error:
  assumes "token st \<noteq> []" and "validate_try out = Inl e"
  shows "validateToken out st = st\<lparr> InterviewPage.isLoading := False, error := Some e \<rparr>"
  using assms by (simp add: validateToken_def Let_def)

lemma render_error:
  "e \<noteq> [] \<Longrightarrow> render (st\<lparr> InterviewPage.isLoading := False, error := Some e \<rparr>) = ValidationFailed e"
  by (simp add: render_def truthy_str_def or_str_def)

lemma or_str_nonempty: "d \<noteq> [] \<Longrightarrow> or_str v d \<noteq> []"
  by (simp add: or_str_def split: option.splits)

lemma invalid_or_expired_nonempty: "invalid_or_expired \<noteq> []"
  by (simp add: invalid_or_expired_def)

lemma validate_try_forbidden:
  "status = 403 \<or> status = 404 \<Longrightarrow>
     validate_try (Resolved status (Inr b)) = Inl (or_str (detail b) invalid_or_expired)"
  by (auto simp: validate_try_def response_ok_def)

lemma validate_try_forbidden_unparsed:
  "status = 403 \<or> status = 404 \<Longrightarrow> validate_try (Resolved status (Inl e)) = Inl e"
  by (auto simp: validate_try_def response_ok_def)

lemma validate_try_not_valid:
  "response_ok status \<Longrightarrow> \<not> valid b \<Longrightarrow>
     validate_try (Resolved status (Inr b)) = Inl invalid_or_expired"
  by (simp add: validate_try_def)

lemma page_step_keeps:
  "InterviewPage.isLoading (page_step e st) = InterviewPage.isLoading st
   \<and> error (page_step e st) = error st"
  by (cases e)
    (simp_all add: handleSendMessage_def handleSendMessage_begin_def handleSendMessage_end_def
      Let_def split: sum.splits)

lemma page_run_keeps:
  "InterviewPage.isLoading (page_run es st) = InterviewPage.isLoading st
   \<and> error (page_run es st) = error st"
  unfolding page_run_def
  by (induction es arbitrary: st) (simp_all add: page_step_keeps)

lemma render_after_run:
  assumes "render st = ValidationFailed msg"
  shows "render (page_run es st) = ValidationFailed msg"
proof -
  have "\<not> InterviewPage.isLoading st \<and> truthy_str (error st) \<and> or_str (error st) [] = msg"
    using assms by (auto simp: render_def split: if_splits option.splits)
  then show ?thesis
    using page_run_keeps [of es st] by (simp add: render_def)
qed

text \<open>
  C7, as stated, fails: a validation payload with \<open>valid = false\<close> that carries a
  \<open>detail\<close> is shown with the fixed message, not with the backend's detail.
\<close>

theorem C7_error_message_counterexample:
  "detail example_closed_payload = Some ''Interview closed by the investor.''
   \<and> \<not> valid example_closed_payload
   \<and> render (validateToken (Resolved 200 (Inr example_closed_payload)) example_page)
       = ValidationFailed ''This interview link is invalid or has expired.''"
  by (simp add: example_closed_payload_def example_page_def validateToken_def validate_try_def
      response_ok_def render_def truthy_str_def or_str_def invalid_or_expired_def)

text \<open>
  C7 (amended): visiting the page with a token whose validation returns 403 or 404
  with a JSON body renders the error panel with the body's \<open>detail\<close> when that is a
  non-empty string, else the fixed message; a validation payload with \<open>valid = false\<close>
  renders the panel with the fixed message, whatever else the payload holds; a 403 or
  404 whose body does not parse renders the panel with the message of the parse error
  (a message that is not empty).
  The panel has no control, the chat view is not the view rendered, and the view stays
  the error panel through every event the page has while the token is the same.
\<close>

theorem C7_invalid_token_error_panel:
  assumes "token st \<noteq> []"
  shows "((status = 403 \<or> status = 404) \<longrightarrow>
            render (validateToken (Resolved status (Inr b)) st)
              = ValidationFailed (or_str (detail b) invalid_or_expired))
       \<and> (response_ok status \<and> \<not> valid b \<longrightarrow>
            render (validateToken (Resolved status (Inr b)) st) = ValidationFailed invalid_or_expired)
       \<and> ((status = 403 \<or> status = 404) \<and> e \<noteq> [] \<longrightarrow>
            render (validateToken (Resolved status (Inl e)) st) = ValidationFailed e)
       \<and> (render st' = ValidationFailed msg \<longrightarrow>
            view_controls (render st') = [] \<and> \<not> is_chat_view (render st')
            \<and> render (page_run es st') = ValidationFailed msg)"
proof -
  have 1: "render (validateToken (Resolved status (Inr b)) st)
      = ValidationFailed (or_str (detail b) invalid_or_expired)" if "status = 403 \<or> status = 404"
    using that assms validate_try_forbidden [of status b]
      or_str_nonempty [OF invalid_or_expired_nonempty, of "detail b"]
    by (simp add: validateToken_error render_error)
  have 2: "render (validateToken (Resolved status (Inr b)) st) = ValidationFailed invalid_or_expired"
    if "response_ok status" and "\<not> valid b"
    using that assms validate_try_not_valid [of status b] invalid_or_expired_nonempty
    by (simp add: validateToken_error render_error)
  have 3: "render (validateToken (Resolved status (Inl e)) st) = ValidationFailed e"
    if "status = 403 \<or> status = 404" and "e \<noteq> []"
    using that assms validate_try_forbidden_unparsed [of status e]
    by (simp add: validateToken_error render_error)
  have 4: "view_controls (render st') = [] \<and> \<not> is_chat_view (render st')
      \<and> render (page_run es st') = ValidationFailed msg"
    if r: "render st' = ValidationFailed msg"
    using r render_after_run [OF r] by simp
  show ?thesis using 1 2 3 4 by blast
qed

theorem C7_invalid_token_error_panel_witness:
  "token example_page \<noteq> []
   \<and> render (validateToken (Resolved 404
         (Inr (example_closed_payload\<lparr> detail := Some ''Interview not found'' \<rparr>))) example_page)
       = ValidationFailed ''Interview not found''
   \<and> render (validateToken (Resolved 403
         (Inr (example_closed_payload\<lparr> detail := None \<rparr>))) example_page)
       = ValidationFailed ''This interview link is invalid or has expired.''
   \<and> render (validateToken (Resolved 200 (Inr example_closed_payload)) example_page)
       = ValidationFailed ''This interview link is invalid or has expired.''
   \<and> view_controls (render (validateToken (Resolved 200 (Inr example_closed_payload))
         example_page)) = []
   \<and> render (page_run
         [Typed ''hello'', Sent ''t1'' ''t2'' (Resolved 200 (Inr \<lparr> detail = None, reply = ''ok'' \<rparr>))]
         (validateToken (Resolved 200 (Inr example_closed_payload)) example_page))
       = ValidationFailed ''This interview link is invalid or has expired.''"
proof -
  have t: "token example_page \<noteq> []" by (simp add: example_page_def)
  have nv: "\<not> valid example_closed_payload" by (simp add: example_closed_payload_def)
  note a = C7_invalid_token_error_panel [OF t, of 404
      "example_closed_payload\<lparr> detail := Some ''Interview not found'' \<rparr>" "''x''"]
  note b = C7_invalid_token_error_panel [OF t, of 403
      "example_closed_payload\<lparr> detail := None \<rparr>" "''x''"]
  note c = C7_invalid_token_error_panel [OF t, of 200 example_closed_payload "''x''"
      "validateToken (Resolved 200 (Inr example_closed_payload)) example_page"
      "''This interview link is invalid or has expired.''"
      "[Typed ''hello'', Sent ''t1'' ''t2'' (Resolved 200 (Inr \<lparr> detail = None, reply = ''ok'' \<rparr>))]"]
  show ?thesis
    using t nv a b c by (simp add: or_str_def invalid_or_expired_def response_ok_def)
qed

subsection \<open>The per-deal chat widget\<close>

lemma chatbot_begin_sends:
  assumes "trim (input st) \<noteq> []"
  shows "chatbot_handleSendMessage_begin js st =
     (st\<lparr> messages := messages st @ [\<lparr> role = ''user'', content = input st \<rparr>],
          localStorage := (localStorage st)(storageKey st \<mapsto>
             js (messages st @ [\<lparr> role = ''user'', content = input st \<rparr>])),
          input := [], isLoading := True \<rparr>,
      Some \<lparr> newMessages = messages st @ [\<lparr> role = ''user'', content = input st \<rparr>],
             investor_chat_request =
               \<lparr> chat_deal_id = dealId st, chat_message = input st,
                 history = map (\<lambda>m. \<lparr> role = role m, content = content m \<rparr>) (messages st) \<rparr> \<rparr>)"
  using assms by (simp add: chatbot_handleSendMessage_begin_def Let_def)

lemma chat_failed_try: "chat_failed out \<Longrightarrow> \<exists>e. chatbot_try out = Inl e"
  by (auto simp: chat_failed_def chatbot_try_def split: fetch_outcome.splits sum.splits)

lemma chatbot_end_failed:
  assumes "chat_failed out"
  shows "messages (chatbot_handleSendMessage_end js p out st') = newMessages p @ [fallback_message]"
proof -
  obtain e where "chatbot_try out = Inl e" using assms chat_failed_try by blast
  then show ?thesis by (simp add: chatbot_handleSendMessage_end_def Let_def)
qed

text \<open>
  C5: in the chat widget, sending a message that is not blank appends the user message
  to the history at once; when the request fails (the fetch rejects, the response is
  not ok, or its body does not parse) the history becomes the history before the send,
  then the user message, then the one fallback message of the model: the user message
  is not rolled back.
\<close>

theorem C5_chat_failure_appends_fallback:
  assumes "trim (input st) \<noteq> []"
  shows "messages (fst (chatbot_handleSendMessage_begin js st)) =
           messages st @ [\<lparr> role = ''user'', content = input st \<rparr>]
       \<and> (chat_failed out \<longrightarrow>
           messages (chatbot_handleSendMessage js out st) =
             messages st @ [\<lparr> role = ''user'', content = input st \<rparr>,
               \<lparr> role = ''model'', content = ''Sorry, I encountered an error. Please try again.'' \<rparr>]
           \<and> (\<forall>p st'. snd (chatbot_handleSendMessage_begin js st) = Some p \<longrightarrow>
                messages (chatbot_handleSendMessage_end js p out st') =
                  messages st @ [\<lparr> role = ''user'', content = input st \<rparr>,
                    \<lparr> role = ''model'',
                      content = ''Sorry, I encountered an error. Please try again.'' \<rparr>]))"
proof -
  note b = chatbot_begin_sends [OF assms, of js]
  have "messages (chatbot_handleSendMessage js out st) =
      messages st @ [\<lparr> role = ''user'', content = input st \<rparr>, fallback_message]
      \<and> (\<forall>p st'. snd (chatbot_handleSendMessage_begin js st) = Some p \<longrightarrow>
            messages (chatbot_handleSendMessage_end js p out st') =
              messages st @ [\<lparr> role = ''user'', content = input st \<rparr>, fallback_message])"
    if f: "chat_failed out"
    using chatbot_end_failed [OF f]
    by (auto simp: chatbot_handleSendMessage_def b)
  then show ?thesis by (simp add: b fallback_message_def)
qed

theorem C5_chat_failure_appends_fallback_witness:
  "trim (input (example_chatbot\<lparr> input := ''What is your ARR?'' \<rparr>)) \<noteq> []
   \<and> chat_failed (Rejected ''Failed to fetch'')
   \<and> messages (chatbot_handleSendMessage example_stringify (Rejected ''Failed to fetch'')
        (example_chatbot\<lparr> input := ''What is your ARR?'' \<rparr>)) =
       [\<lparr> role = ''user'', content = ''What is your ARR?'' \<rparr>,
        \<lparr> role = ''model'', content = ''Sorry, I encountered an error. Please try again.'' \<rparr>]"
proof -
  have i: "trim (input (example_chatbot\<lparr> input := ''What is your ARR?'' \<rparr>)) \<noteq> []"
    by (simp add: trim_def js_whitespace_def)
  have f: "chat_failed (Rejected ''Failed to fetch'')"
    by (simp add: chat_failed_def)
  show ?thesis
    using i f C5_chat_failure_appends_fallback [OF i, of example_stringify "Rejected ''Failed to fetch''"]
    by (simp add: example_chatbot_def)
qed

text \<open>
  C10: on mount the widget reads local storage under \<open>chat_history_<dealId>\<close>; when
  nothing is stored, and for every stored value that does not parse, the history
  becomes exactly the one greeting of the model; a stored value that parses replaces
  the history by what it parses to.
\<close>

theorem C10_load_history:
  "(localStorage st (storageKey st) = None \<longrightarrow>
      messages (load_history parse st) = [greeting (company_name (metadata (analysisData st)))])
   \<and> (localStorage st (storageKey st) = Some s \<and> parse s = None \<longrightarrow>
      messages (load_history parse st) = [greeting (company_name (metadata (analysisData st)))])
   \<and> (localStorage st (storageKey st) = Some s \<and> s \<noteq> [] \<and> parse s = Some ms \<longrightarrow>
      messages (load_history parse st) = ms)
   \<and> storageKey st = ''chat_history_'' @ deal_id (metadata (analysisData st))
   \<and> role (greeting c) = ''model''"
  by (simp add: load_history_def initializeChat_def storageKey_def dealId_def greeting_def)

theorem C10_load_history_witness:
  "messages (load_history example_parse example_chatbot) = [greeting ''Acme'']
   \<and> messages (load_history example_parse
        (example_chatbot\<lparr> localStorage := [''chat_history_deal-1'' \<mapsto> ''[{role:'']\<rparr>))
       = [greeting ''Acme'']
   \<and> messages (load_history example_parse
        (example_chatbot\<lparr> localStorage := [''chat_history_deal-1'' \<mapsto> ''user:hi;'']\<rparr>))
       = [\<lparr> role = ''user'', content = ''hi'' \<rparr>]"
  using C10_load_history [where st = example_chatbot and parse = example_parse]
    C10_load_history [where st = "example_chatbot\<lparr> localStorage := [''chat_history_deal-1'' \<mapsto> ''[{role:'']\<rparr>"
       and s = "''[{role:''" and parse = example_parse]
    C10_load_history [where st = "example_chatbot\<lparr> localStorage := [''chat_history_deal-1'' \<mapsto> ''user:hi;'']\<rparr>"
       and s = "''user:hi;''" and parse = example_parse
       and ms = "[\<lparr> role = ''user'', content = ''hi'' \<rparr>]"]
  by (simp add: example_chatbot_def example_deal_def example_parse_def storageKey_def dealId_def)

subsection \<open>The investor dashboard\<close>

lemma delete_failed_try: "delete_failed out \<Longrightarrow> \<exists>e. delete_try out = Inl e"
  by (auto simp: delete_failed_def delete_try_def split: fetch_outcome.splits)

lemma handleDelete_end_failed:
  assumes "delete_failed out"
  shows "startups (handleDelete_end p out st') = originalStartups p
     \<and> (\<exists>msg. toasts (handleDelete_end p out st') =
            toasts st' @ [\<lparr> destructive = True, title = ''Deletion Failed'', description = msg \<rparr>])"
proof -
  obtain e where "delete_try out = Inl e" using assms delete_failed_try by blast
  then show ?thesis by (simp add: handleDelete_end_def)
qed

text \<open>
  C6: deleting a deal removes it from the list before the request completes; when the
  request fails (the fetch rejects or the response is not ok) the list is again the
  list before the delete, and a destructive toast titled \<open>Deletion Failed\<close> is shown.
\<close>

theorem C6_delete_optimistic_rollback:
  "startups (fst (handleDelete_begin sid st)) = filter (\<lambda>s. id' s \<noteq> sid) (startups st)
   \<and> (\<forall>s \<in> set (startups (fst (handleDelete_begin sid st))). id' s \<noteq> sid)
   \<and> (delete_failed out \<longrightarrow>
        startups (handleDelete sid out st) = startups st
        \<and> (\<exists>msg. toasts (handleDelete sid out st) =
              toasts st @ [\<lparr> destructive = True, title = ''Deletion Failed'', description = msg \<rparr>])
        \<and> (\<forall>st'. startups (handleDelete_end (snd (handleDelete_begin sid st)) out st')
              = startups st))"
proof -
  have "startups (handleDelete sid out st) = startups st
        \<and> (\<exists>msg. toasts (handleDelete sid out st) =
              toasts st @ [\<lparr> destructive = True, title = ''Deletion Failed'', description = msg \<rparr>])
        \<and> (\<forall>st'. startups (handleDelete_end (snd (handleDelete_begin sid st)) out st')
              = startups st)"
    if f: "delete_failed out"
  proof -
    let ?p = "\<lparr> originalStartups = startups st, delete_path = deal_path sid \<rparr>"
    let ?st1 = "st\<lparr> startups := filter (\<lambda>s. id' s \<noteq> sid) (startups st) \<rparr>"
    have r: "startups (handleDelete_end ?p out st') = startups st" for st'
      using handleDelete_end_failed [OF f, of ?p st'] by simp
    have t: "\<exists>msg. toasts (handleDelete_end ?p out ?st1) =
        toasts st @ [\<lparr> destructive = True, title = ''Deletion Failed'', description = msg \<rparr>]"
      using handleDelete_end_failed [OF f, of ?p ?st1] by simp
    show ?thesis
      using r t by (simp add: handleDelete_def handleDelete_begin_def)
  qed
  then show ?thesis by (simp add: handleDelete_begin_def)
qed

theorem C6_delete_optimistic_rollback_witness:
  "startups (fst (handleDelete_begin ''deal-1''
       \<lparr> startups = [example_deal, example_fast_deal], toasts = [] \<rparr>)) = [example_fast_deal]
   \<and> delete_failed (Resolved 500 (Inl ''Internal Server Error''))
   \<and> startups (handleDelete ''deal-1'' (Resolved 500 (Inl ''Internal Server Error''))
       \<lparr> startups = [example_deal, example_fast_deal], toasts = [] \<rparr>)
       = [example_deal, example_fast_deal]
   \<and> toasts (handleDelete ''deal-1'' (Resolved 500 (Inl ''Internal Server Error''))
       \<lparr> startups = [example_deal, example_fast_deal], toasts = [] \<rparr>)
       = [\<lparr> destructive = True, title = ''Deletion Failed'',
            description = ''Failed to delete the analysis.'' \<rparr>]"
  using C6_delete_optimistic_rollback [of "''deal-1''"
      "\<lparr> startups = [example_deal, example_fast_deal], toasts = [] \<rparr>"
      "Resolved 500 (Inl ''Internal Server Error'')"]
  by (simp add: example_deal_def example_fast_deal_def delete_failed_def response_ok_def
      handleDelete_def handleDelete_begin_def handleDelete_end_def delete_try_def or_str_def)


subsection \<open>The authenticated fetch wrapper\<close>

lemma filter_set_first:
  "filter (\<lambda>(k, w). k = m) (set_first n v h) =
     (if m = n then [(n, v)] else filter (\<lambda>(k, w). k = m) h)"
proof (induction h)
  case Nil
  then show ?case by simp
next
  case (Cons kw h)
  obtain k w where kw: "kw = (k, w)" by (cases kw)
  have drop: "filter (\<lambda>(k, w). k = n) (filter (\<lambda>(k', w'). k' \<noteq> n) h) = []"
    by (induction h) auto
  have keep: "m \<noteq> n \<Longrightarrow>
      filter (\<lambda>(k, w). k = m) (filter (\<lambda>(k', w'). k' \<noteq> n) h) = filter (\<lambda>(k, w). k = m) h"
    by (induction h) auto
  show ?case
    using Cons.IH drop keep by (auto simp: kw)
qed

lemma Headers_get_set:
  "Headers_get (Headers_set h name v) name' =
     (if header_name name' = header_name name then Some v else Headers_get h name')"
  by (simp add: Headers_get_def Headers_set_def filter_set_first)

lemma foldl_Headers_append:
  "foldl (\<lambda>h (name, v). Headers_append h name v) acc xs =
     acc @ map (\<lambda>(name, v). (header_name name, v)) xs"
  by (induction xs arbitrary: acc) (auto simp: Headers_append_def)

lemma Headers_new_map: "Headers_new xs = map (\<lambda>(name, v). (header_name name, v)) xs"
  by (simp add: Headers_new_def foldl_Headers_append)

lemma Headers_get_absent:
  "\<forall>(name, v) \<in> set xs. header_name name \<noteq> header_name name' \<Longrightarrow>
     Headers_get (Headers_new xs) name' = None"
proof -
  assume a: "\<forall>(name, v) \<in> set xs. header_name name \<noteq> header_name name'"
  have "filter (\<lambda>(k, w). k = header_name name') (map (\<lambda>(name, v). (header_name name, v)) xs) = []"
    using a by (induction xs) auto
  then show ?thesis
    by (simp add: Headers_get_def Headers_new_map)
qed

lemma authenticatedFetch_token:
  assumes "currentUser auth = Some u" and "getIdToken u = Token t"
  shows "authenticatedFetch auth x options =
     \<lparr> url = x, init = options\<lparr> headers :=
         Headers_set (Headers_new (headers options)) ''Authorization'' (''Bearer '' @ t) \<rparr> \<rparr>"
  using assms by (simp add: authenticatedFetch_def getAuthHeaders_def)

lemma authenticatedFetch_no_session:
  assumes "no_session auth"
  shows "authenticatedFetch auth x options =
     \<lparr> url = x, init = options\<lparr> headers := Headers_new (headers options) \<rparr> \<rparr>"
  using assms
  by (auto simp: authenticatedFetch_def getAuthHeaders_def no_session_def
      split: option.splits id_token_result.splits)

text \<open>
  C8: every call through \<open>authenticatedFetch\<close> is passed on to \<open>fetch\<close> with the
  url, http_method and body it was given. With a signed-in user whose token is obtained,
  the request carries \<open>Authorization: Bearer <token>\<close> and every other header as
  given. With no signed-in user, or when obtaining the token throws, the request is
  sent with the headers as given and nothing added: it has no \<open>Authorization\<close> header
  unless the caller gave one.
\<close>

theorem C8_bearer_when_session_else_unauthenticated:
  "(currentUser auth = Some u \<and> getIdToken u = Token t \<longrightarrow>
      Headers_get (headers (init (authenticatedFetch auth x options))) ''Authorization''
        = Some (''Bearer '' @ t)
      \<and> (\<forall>name. header_name name \<noteq> header_name ''Authorization'' \<longrightarrow>
           Headers_get (headers (init (authenticatedFetch auth x options))) name
             = Headers_get (Headers_new (headers options)) name))
   \<and> (no_session auth \<longrightarrow>
      authenticatedFetch auth x options =
        \<lparr> url = x, init = options\<lparr> headers := Headers_new (headers options) \<rparr> \<rparr>
      \<and> ((\<forall>(name, v) \<in> set (headers options). header_name name \<noteq> header_name ''Authorization'') \<longrightarrow>
           Headers_get (headers (init (authenticatedFetch auth x options))) ''Authorization'' = None))
   \<and> url (authenticatedFetch auth x options) = x
   \<and> http_method (init (authenticatedFetch auth x options)) = http_method options
   \<and> body (init (authenticatedFetch auth x options)) = body options"
proof -
  have 1: "Headers_get (headers (init (authenticatedFetch auth x options))) ''Authorization''
        = Some (''Bearer '' @ t)
      \<and> (\<forall>name. header_name name \<noteq> header_name ''Authorization'' \<longrightarrow>
           Headers_get (headers (init (authenticatedFetch auth x options))) name
             = Headers_get (Headers_new (headers options)) name)"
    if "currentUser auth = Some u" and "getIdToken u = Token t"
    using authenticatedFetch_token [OF that] by (simp add: Headers_get_set)
  have 2: "authenticatedFetch auth x options =
        \<lparr> url = x, init = options\<lparr> headers := Headers_new (headers options) \<rparr> \<rparr>
      \<and> ((\<forall>(name, v) \<in> set (headers options). header_name name \<noteq> header_name ''Authorization'') \<longrightarrow>
           Headers_get (headers (init (authenticatedFetch auth x options))) ''Authorization'' = None)"
    if "no_session auth"
    using authenticatedFetch_no_session [OF that] Headers_get_absent by simp
  have 3: "url (authenticatedFetch auth x options) = x
   \<and> http_method (init (authenticatedFetch auth x options)) = http_method options
   \<and> body (init (authenticatedFetch auth x options)) = body options"
    by (simp add: authenticatedFetch_def Let_def)
  show ?thesis using 1 2 3 by blast
qed

theorem C8_bearer_when_session_else_unauthenticated_witness:
  "authenticatedFetch \<lparr> currentUser = Some \<lparr> getIdToken = Token ''eyJhbGci'' \<rparr> \<rparr>
       ''https://api.example/api/deals'' example_options
     = \<lparr> url = ''https://api.example/api/deals'',
         init = \<lparr> http_method = Some ''POST'',
                  headers = [(''content-type'', ''application/json''),
                             (''authorization'', ''Bearer eyJhbGci'')],
                  body = Some ''{}'' \<rparr> \<rparr>
   \<and> authenticatedFetch \<lparr> currentUser = None \<rparr> ''https://api.example/api/deals'' example_options
     = \<lparr> url = ''https://api.example/api/deals'',
         init = \<lparr> http_method = Some ''POST'',
                  headers = [(''content-type'', ''application/json'')],
                  body = Some ''{}'' \<rparr> \<rparr>
   \<and> Headers_get (headers (init (authenticatedFetch
         \<lparr> currentUser = Some \<lparr> getIdToken = TokenError ''auth/network-request-failed'' \<rparr> \<rparr>
         ''https://api.example/api/deals'' example_options))) ''Authorization'' = None"
proof -
  have ct: "header_name ''Content-Type'' = ''content-type''"
    by (simp add: header_name_def ascii_lower_def)
  have au: "header_name ''Authorization'' = ''authorization''"
    by (simp add: header_name_def ascii_lower_def)
  have hn: "Headers_new (headers example_options) = [(''content-type'', ''application/json'')]"
    by (simp add: example_options_def Headers_new_def Headers_append_def ct)
  have hs: "Headers_set [(''content-type'', ''application/json'')] ''Authorization''
      ''Bearer eyJhbGci'' =
      [(''content-type'', ''application/json''), (''authorization'', ''Bearer eyJhbGci'')]"
    by (simp add: Headers_set_def au)
  have absent: "\<forall>(name, v) \<in> set (headers example_options).
      header_name name \<noteq> header_name ''Authorization''"
    by (simp add: example_options_def ct au)
  have s1: "no_session \<lparr> currentUser = None \<rparr>"
    by (simp add: no_session_def)
  have s2: "no_session
      \<lparr> currentUser = Some \<lparr> getIdToken = TokenError ''auth/network-request-failed'' \<rparr> \<rparr>"
    by (simp add: no_session_def)
  have a: "authenticatedFetch \<lparr> currentUser = Some \<lparr> getIdToken = Token ''eyJhbGci'' \<rparr> \<rparr>
       ''https://api.example/api/deals'' example_options
     = \<lparr> url = ''https://api.example/api/deals'',
         init = example_options\<lparr> headers :=
           [(''content-type'', ''application/json''), (''authorization'', ''Bearer eyJhbGci'')] \<rparr> \<rparr>"
    by (simp add: authenticatedFetch_def getAuthHeaders_def hn hs)
  have b: "authenticatedFetch \<lparr> currentUser = None \<rparr> ''https://api.example/api/deals''
       example_options
     = \<lparr> url = ''https://api.example/api/deals'',
         init = example_options\<lparr> headers := [(''content-type'', ''application/json'')] \<rparr> \<rparr>"
    using s1 C8_bearer_when_session_else_unauthenticated
      [of "\<lparr> currentUser = None \<rparr>" _ _ "''https://api.example/api/deals''" example_options]
    by (simp only: hn)
  have c: "Headers_get (headers (init (authenticatedFetch
         \<lparr> currentUser = Some \<lparr> getIdToken = TokenError ''auth/network-request-failed'' \<rparr> \<rparr>
         ''https://api.example/api/deals'' example_options))) ''Authorization'' = None"
    using s2 absent C8_bearer_when_session_else_unauthenticated
      [of "\<lparr> currentUser = Some \<lparr> getIdToken = TokenError ''auth/network-request-failed'' \<rparr> \<rparr>"
          _ _ "''https://api.example/api/deals''" example_options]
    by blast
  show ?thesis
    using a b c by (simp add: example_options_def)
qed

subsection \<open>The deal card\<close>

lemma scoreColor_bands:
  "scoreColor sc = (if sc \<le> 30 then green else if sc \<le> 60 then yellow else red)"
  by (simp add: scoreColor_def Let_def)

lemma no_memo_no_text: "card_memo a = None \<Longrightarrow> conclusion_text field a = None"
  by (simp add: conclusion_text_def)

text \<open>
  C9, as stated, fails in its last part: a deal without a memo is not indistinguishable
  in the list from a low-risk one. Even beside the same deal analysed with a risk score
  of 0 and the recommendation \<open>N/A\<close>, its card differs: it has no Download button,
  the analysed deal's card has one.
\<close>

theorem C9_indistinguishable_counterexample:
  "card_memo example_deal = None
   \<and> score (example_deal\<lparr> memo := Some low_risk_memo \<rparr>) = 0
   \<and> recommendation (example_deal\<lparr> memo := Some low_risk_memo \<rparr>) = ''N/A''
   \<and> \<not> download_button (render_card example_deal)
   \<and> download_button (render_card (example_deal\<lparr> memo := Some low_risk_memo \<rparr>))"
  by (simp add: example_deal_def low_risk_memo_def card_memo_def render_card_def score_def
      raw_score_def recommendation_def raw_recommendation_def or_num_def or_str_def)

text \<open>
  C9 (amended): for every deal of the list whose memo or composite risk score is absent
  the score is 0 and, when the deal is not in fast mode, the badge shows 0 in the green
  classes; the colour is green up to 30, yellow above 30 up to 60, red above 60; a
  missing recommendation is \<open>N/A\<close>. The score badge of such a deal is the badge of a
  deal in the same mode whose analysed score is 0, so the badge alone does not tell the
  two apart. The card does: without a memo it has no Download button and shows the
  note that no conclusion data is available, and every deal with a memo has the
  Download button.
\<close>

theorem C9_unprocessed_card_defaults:
  "(card_memo a = None \<or> raw_score a = None \<longrightarrow>
      score a = 0
      \<and> (processing_mode (metadata a) \<noteq> Some ''fast'' \<longrightarrow>
           score_badge (render_card a) = Some (0, green)))
   \<and> scoreColor sc = (if sc \<le> 30 then green else if 30 < sc \<and> sc \<le> 60 then yellow else red)
   \<and> (raw_recommendation a = None \<longrightarrow>
      recommendation a = ''N/A''
      \<and> (processing_mode (metadata a) \<noteq> Some ''fast'' \<longrightarrow>
           recommendation_row (render_card a) = Some ''N/A''))
   \<and> ((card_memo a = None \<or> raw_score a = None) \<and> raw_score b = Some 0
        \<and> processing_mode (metadata b) = processing_mode (metadata a) \<longrightarrow>
      score_badge (render_card b) = score_badge (render_card a))
   \<and> (card_memo a = None \<longrightarrow>
      \<not> download_button (render_card a) \<and> no_conclusion_note (render_card a))
   \<and> (card_memo b \<noteq> None \<longrightarrow> download_button (render_card b))"
proof -
  have none: "card_memo a = None \<Longrightarrow> raw_score a = None"
    by (simp add: raw_score_def)
  have s: "raw_score a = None \<Longrightarrow> score a = 0"
    by (simp add: score_def or_num_def)
  have sb: "raw_score b = Some 0 \<Longrightarrow> score b = 0"
    by (simp add: score_def or_num_def)
  have r: "raw_recommendation a = None \<Longrightarrow> recommendation a = ''N/A''"
    by (simp add: recommendation_def or_str_def)
  have g: "scoreColor 0 = green" by (simp add: scoreColor_bands)
  have n: "card_memo a = None \<Longrightarrow>
      \<not> download_button (render_card a) \<and> no_conclusion_note (render_card a)"
    by (simp add: render_card_def no_memo_no_text shown_text_def)
  have d: "card_memo b \<noteq> None \<Longrightarrow> download_button (render_card b)"
    by (simp add: render_card_def)
  have badge: "score_badge (render_card x) =
      (if processing_mode (metadata x) \<noteq> Some ''fast''
       then Some (score x, scoreColor (score x)) else None)" for x
    by (simp add: render_card_def)
  have row: "recommendation_row (render_card a) =
      (if processing_mode (metadata a) \<noteq> Some ''fast'' then Some (recommendation a) else None)"
    by (simp add: render_card_def)
  have z: "score a = 0" if "card_memo a = None \<or> raw_score a = None"
    using that none s by blast
  have k1: "score a = 0 \<and> (processing_mode (metadata a) \<noteq> Some ''fast'' \<longrightarrow>
      score_badge (render_card a) = Some (0, green))"
    if h: "card_memo a = None \<or> raw_score a = None"
    using z [OF h] g by (simp add: badge)
  have k2: "scoreColor sc = (if sc \<le> 30 then green else if 30 < sc \<and> sc \<le> 60 then yellow else red)"
    by (simp add: scoreColor_bands)
  have k3: "recommendation a = ''N/A'' \<and> (processing_mode (metadata a) \<noteq> Some ''fast'' \<longrightarrow>
      recommendation_row (render_card a) = Some ''N/A'')"
    if h: "raw_recommendation a = None"
    using r [OF h] by (simp add: row)
  have k4: "score_badge (render_card b) = score_badge (render_card a)"
    if h: "card_memo a = None \<or> raw_score a = None" and hb: "raw_score b = Some 0"
      and pm: "processing_mode (metadata b) = processing_mode (metadata a)"
    using z [OF h] sb [OF hb] pm by (simp add: badge)
  show ?thesis
    using k1 k2 k3 k4 n d by blast
qed

theorem C9_unprocessed_card_defaults_witness:
  "card_memo example_deal = None
   \<and> render_card example_deal =
       \<lparr> score_badge = Some (0, ''text-green-600 bg-green-50 border-green-200''),
         mode_badge = ''Research'', recommendation_row = Some ''N/A'',
         product_block = None, financials_block = None, thesis_block = None,
         risk_block = None, no_conclusion_note = True, download_button = False \<rparr>
   \<and> render_card example_fast_deal =
       \<lparr> score_badge = None, mode_badge = ''Fast'', recommendation_row = None,
         product_block = Some ''Same-day delivery for pharmacies.'', financials_block = None,
         thesis_block = None, risk_block = None, no_conclusion_note = False,
         download_button = True \<rparr>
   \<and> score_badge (render_card (example_deal\<lparr> memo := Some low_risk_memo \<rparr>))
       = score_badge (render_card example_deal)
   \<and> scoreColor 30 = ''text-green-600 bg-green-50 border-green-200''
   \<and> scoreColor 45 = ''text-yellow-600 bg-yellow-50 border-yellow-200''
   \<and> scoreColor 60 = ''text-yellow-600 bg-yellow-50 border-yellow-200''
   \<and> scoreColor 61 = ''text-red-600 bg-red-50 border-red-200''"
proof -
  have m: "card_memo example_deal = None"
    by (simp add: example_deal_def card_memo_def)
  have nf: "processing_mode (metadata example_deal) \<noteq> Some ''fast''"
    by (simp add: example_deal_def)
  have lr: "raw_score (example_deal\<lparr> memo := Some low_risk_memo \<rparr>) = Some 0"
    by (simp add: raw_score_def card_memo_def low_risk_memo_def)
  have pm: "processing_mode (metadata (example_deal\<lparr> memo := Some low_risk_memo \<rparr>))
      = processing_mode (metadata example_deal)"
    by simp
  have c1: "render_card example_deal =
       \<lparr> score_badge = Some (0, ''text-green-600 bg-green-50 border-green-200''),
         mode_badge = ''Research'', recommendation_row = Some ''N/A'',
         product_block = None, financials_block = None, thesis_block = None,
         risk_block = None, no_conclusion_note = True, download_button = False \<rparr>"
    by (simp add: example_deal_def card_memo_def render_card_def score_def recommendation_def
        raw_score_def raw_recommendation_def or_num_def or_str_def conclusion_text_def
        shown_text_def scoreColor_def green_def)
  have c2: "render_card example_fast_deal =
       \<lparr> score_badge = None, mode_badge = ''Fast'', recommendation_row = None,
         product_block = Some ''Same-day delivery for pharmacies.'', financials_block = None,
         thesis_block = None, risk_block = None, no_conclusion_note = False,
         download_button = True \<rparr>"
    by (simp add: example_fast_deal_def card_memo_def render_card_def conclusion_text_def
        shown_text_def)
  have c3: "score_badge (render_card (example_deal\<lparr> memo := Some low_risk_memo \<rparr>))
       = score_badge (render_card example_deal)"
    using C9_unprocessed_card_defaults
      [of example_deal _ "example_deal\<lparr> memo := Some low_risk_memo \<rparr>"] m lr pm
    by blast
  have c4: "scoreColor 30 = green \<and> scoreColor 45 = yellow \<and> scoreColor 60 = yellow
      \<and> scoreColor 61 = red"
    using C9_unprocessed_card_defaults [of example_deal 30]
      C9_unprocessed_card_defaults [of example_deal 45]
      C9_unprocessed_card_defaults [of example_deal 60]
      C9_unprocessed_card_defaults [of example_deal 61]
    by simp
  show ?thesis
    using m c1 c2 c3 c4 by (simp add: green_def yellow_def red_def)
qed

end
